theory Spec2Isabelle
  imports Complex_Main "HOL-Library.Word"
begin

section \<open>Python values, exceptions and call outcomes\<close>

text \<open>
  The backend is Python. Python \<open>int\<close> is \<^typ>\<open>int\<close>; Python \<open>float\<close> is idealised as
  \<^typ>\<open>real\<close> (rounding, infinities and NaN are outside the model); a numpy array of floats is
  a \<^typ>\<open>real list\<close>; a byte buffer (\<open>np.uint8\<close>, ctypes bytes) is a list of 8-bit words.
  The fields of the \<open>Acquisition\<close> named tuple hold \<open>None\<close>, an int or a float at different
  moments, so they are values of \<open>pyval\<close>.
\<close>

datatype pyval = PyNone | PyInt int | PyFloat real

text \<open>Python's \<open>==\<close> on these values: numbers compare by value, \<open>None\<close> only equals \<open>None\<close>.\<close>

fun py_eq :: "pyval \<Rightarrow> pyval \<Rightarrow> bool" where
  "py_eq PyNone PyNone = True"
| "py_eq (PyInt a) (PyInt b) = (a = b)"
| "py_eq (PyInt a) (PyFloat b) = (real_of_int a = b)"
| "py_eq (PyFloat a) (PyInt b) = (a = real_of_int b)"
| "py_eq (PyFloat a) (PyFloat b) = (a = b)"
| "py_eq _ _ = False"

text \<open>
  The exceptions that can leave the backend. The two \<open>ValueError\<close>s of \<open>make_acquisition\<close>
  carry the numbers of their messages; \<open>NumpyValueError\<close> stands for a \<open>ValueError\<close> raised
  inside numpy, \<open>IntLiteralError\<close> for the one of \<open>int(str)\<close>.
\<close>

datatype value_error =
    StopNotInRange int int
  | StartNotBeforeStop int int
  | NumpyValueError
  | IntLiteralError

datatype error =
    SpectroError
  | TriggerTimeoutError
  | MozzaError
  | ValueError value_error
  | TypeError
  | IndexError
  | RecursionError

text \<open>
  A call either returns a value (\<open>Inr\<close>) or is cut short: it raises, it waits for the lock
  that another thread holds (\<open>Blocked\<close>), or its loop has not stopped within the number of
  iterations the model was given (\<open>OutOfFuel\<close>). Every call also returns the state it leaves
  behind, since a Python method that raises keeps the assignments it has made.
\<close>

datatype abort = Raise error | Blocked | OutOfFuel

type_synonym 'a outcome = "abort + 'a"

abbreviation Return :: "'a \<Rightarrow> 'a outcome" where
  "Return \<equiv> Inr"

section \<open>spectro.py: the Spectro interface\<close>

record Acquisition =
  start :: pyval
  stop :: pyval

text \<open>
  The attributes of \<open>Spectro.__init__\<close>. A leading underscore of the source is written
  \<open>priv_\<close>. Subclasses extend the record.
\<close>

record Spectro =
  priv_npixels :: "int option"
  priv_lambdas :: "real list option"
  priv_spectrum :: "real list option"
  priv_connected :: bool
  priv_serial :: string
  acquisition :: Acquisition

text \<open>
  \<open>Spectro.make_acquisition\<close>. The abstract method \<open>_acquire_spectrum\<close> is the parameter
  \<open>acquire_spectrum\<close>. With \<open>_npixels\<close> still \<open>None\<close> both \<open>stop += None\<close> and
  \<open>stop >= None\<close> (or the \<open>%d\<close> of the message) are a \<open>TypeError\<close>.
\<close>

definition make_acquisition ::
  "(bool \<Rightarrow> 'a Spectro_scheme \<Rightarrow> real list option outcome \<times> 'a Spectro_scheme) \<Rightarrow>
   int \<Rightarrow> int \<Rightarrow> bool \<Rightarrow> 'a Spectro_scheme \<Rightarrow> unit outcome \<times> 'a Spectro_scheme" where
  "make_acquisition acquire_spectrum start0 stop0 background_mode s =
    (if \<not> priv_connected s then (Return (), s)
     else case priv_npixels s of
       None \<Rightarrow> (Inl (Raise TypeError), s)
     | Some npixels \<Rightarrow>
        (let stop1 = (if stop0 < 0 then stop0 + npixels else stop0) in
         if stop1 < 1 \<or> stop1 \<ge> npixels
         then (Inl (Raise (ValueError (StopNotInRange stop1 npixels))), s)
         else
          (let start1 = (if start0 < 0 then start0 + npixels else start0) in
           if start1 < 0 \<or> start1 \<ge> stop1
           then (Inl (Raise (ValueError (StartNotBeforeStop start1 stop1))), s)
           else
            (case acquire_spectrum background_mode
                    (s\<lparr>acquisition := \<lparr>start = PyInt start1, stop = PyInt stop1\<rparr>\<rparr>) of
               (Inl a, s1) \<Rightarrow> (Inl a, s1)
             | (Inr spec, s1) \<Rightarrow> (Return (), s1\<lparr>priv_spectrum := spec\<rparr>)))))"

section \<open>The vendor SDK as a parameter\<close>

text \<open>
  The device object \<open>MozzaUSB\<close> of the vendor library \<open>libmozza\<close> is not part of the
  repository. The attributes that the backend reads or assigns directly are the fields of
  \<open>MozzaUSB\<close>; the rest of the device is the opaque component \<open>hw\<close>. Every method of the
  device is a parameter, collected in the record \<open>sdk\<close>: it takes the device, answers with
  a value (\<open>Ok\<close>) or by raising \<open>MozzaError\<close> (\<open>Failed\<close>), and leaves a device behind.
\<close>

datatype trigger = INTERNAL | EXTERNAL

record AcquisitionParams =
  trigger_source :: trigger
  trigger_delay_us :: int
  signal_high_gain :: bool
  reference_high_gain :: bool
  point_repetition :: int

record ProcessParams =
  signal_offset :: real
  reference_offset :: real

record 'h MozzaUSB =
  acquisition_params :: AcquisitionParams
  process_params :: ProcessParams
  table_length :: int
  rf_attenuation :: real
  hw :: 'h

datatype 'a reply = Ok 'a | Failed

type_synonym byte = "8 word"

type_synonym ('a, 'h) sdk_method = "'h MozzaUSB \<Rightarrow> 'a reply \<times> 'h MozzaUSB"

record 'h sdk =
  sdk_connect :: "int \<Rightarrow> (unit, 'h) sdk_method"
  sdk_disconnect :: "(unit, 'h) sdk_method"
  sdk_get_sensors :: "(unit, 'h) sdk_method"
  sdk_reset_all :: "(unit, 'h) sdk_method"
  sdk_set_default_params :: "(unit, 'h) sdk_method"
  sdk_set_acquisition_params :: "(unit, 'h) sdk_method"
  sdk_set_process_params :: "(unit, 'h) sdk_method"
  sdk_set_rf_attenuation :: "real option \<Rightarrow> (unit, 'h) sdk_method"
  sdk_setup_gains :: "bool \<Rightarrow> bool \<Rightarrow> (unit, 'h) sdk_method"
  sdk_set_wavenumber_array :: "real list \<Rightarrow> (unit, 'h) sdk_method"
  sdk_get_raw_data_size :: "int \<Rightarrow> (int, 'h) sdk_method"
  sdk_begin_acquisition :: "(int, 'h) sdk_method"
  sdk_end_acquisition :: "(unit, 'h) sdk_method"
  sdk_get_trigger_frequency :: "(real, 'h) sdk_method"
  sdk_read_raw :: "int option \<Rightarrow> (byte list, 'h) sdk_method"
  sdk_process_spectrum :: "byte list \<Rightarrow> (real list, 'h) sdk_method"
  sdk_separate_sig_ref :: "byte list \<Rightarrow> (real list \<times> real list, 'h) sdk_method"
  sdk_measure_offsets :: "bool \<Rightarrow> bool \<Rightarrow> (real \<times> real, 'h) sdk_method"
  sdk_set_auto_params :: "int \<Rightarrow> real \<Rightarrow> bool \<Rightarrow> bool \<Rightarrow> real \<Rightarrow> real \<Rightarrow> (unit, 'h) sdk_method"

text \<open>
  The calls made on the device, in order. The backend does not keep this list: the model
  appends to it at every call of a device method, so that a theorem can say which calls a
  backend method makes.
\<close>

datatype sdk_call =
    Call_connect int
  | Call_disconnect
  | Call_get_sensors
  | Call_reset_all
  | Call_set_default_params
  | Call_set_acquisition_params
  | Call_set_process_params
  | Call_set_rf_attenuation "real option"
  | Call_setup_gains bool bool
  | Call_set_wavenumber_array "real list"
  | Call_get_raw_data_size int
  | Call_begin_acquisition
  | Call_end_acquisition
  | Call_get_trigger_frequency
  | Call_read_raw "int option"
  | Call_process_spectrum "byte list"
  | Call_separate_sig_ref "byte list"
  | Call_measure_offsets bool bool
  | Call_set_auto_params int real bool bool real real

section \<open>The reentrant lock\<close>

text \<open>
  \<open>threading.RLock\<close>: free, or held by one thread a number of times. Acquiring succeeds
  when the lock is free or held by the caller; otherwise a non-blocking \<open>acquire(False)\<close>
  answers \<open>False\<close> and a blocking acquire (\<open>with self._lock\<close>) waits. \<open>rlock_acquire\<close>
  gives the lock after a successful acquire, \<open>None\<close> when the lock is held by another thread.
\<close>

type_synonym thread = nat

record RLock =
  lock_owner :: "thread option"
  lock_depth :: nat

definition rlock_free :: RLock where
  "rlock_free = \<lparr>lock_owner = None, lock_depth = 0\<rparr>"

definition rlock_acquire :: "thread \<Rightarrow> RLock \<Rightarrow> RLock option" where
  "rlock_acquire me l =
    (case lock_owner l of
       None \<Rightarrow> Some \<lparr>lock_owner = Some me, lock_depth = 1\<rparr>
     | Some t \<Rightarrow> if t = me then Some (l\<lparr>lock_depth := lock_depth l + 1\<rparr>) else None)"

definition rlock_release :: "RLock \<Rightarrow> RLock" where
  "rlock_release l =
    (if lock_depth l \<le> 1 then rlock_free else l\<lparr>lock_depth := lock_depth l - 1\<rparr>)"

section \<open>Mozza.py: the state of MozzaSpectro\<close>

text \<open>
  The attributes of \<open>MozzaSpectro.__init__\<close> on top of those of \<open>Spectro\<close>. The attributes
  \<open>resolution_cm\<close> and \<open>native_units\<close> and the class attribute \<open>calibration_limits\<close> are
  assigned once and never again; they are the constants below. The correction function
  \<open>correct_amplitude\<close> answers \<open>None\<close> where \<open>np.interp\<close> raises a \<open>ValueError\<close>.
\<close>

datatype SpectralUnits = nm | inv_cm

definition resolution_cm :: real where
  "resolution_cm = 3"

definition native_units :: SpectralUnits where
  "native_units = inv_cm"

definition calibration_limits :: "real \<times> real" where
  "calibration_limits = (2000, 12500)"

record 'h MozzaSpectro = Spectro +
  device :: "'h MozzaUSB"
  priv_trigger_delay_us :: real
  priv_acquisition :: Acquisition
  priv_lock :: RLock
  buffer :: "byte list"
  correct_amplitude :: "(real list \<Rightarrow> real list option) option"
  apply_amp_correction :: bool
  amp_correction :: "real list option"
  sdk_log :: "sdk_call list"

text \<open>\<open>MozzaSpectro.__init__\<close>; the argument is the fresh device \<open>MozzaUSB()\<close>.\<close>

definition init :: "'h MozzaUSB \<Rightarrow> 'h MozzaSpectro" where
  "init d =
    \<lparr>priv_npixels = None, priv_lambdas = None, priv_spectrum = None,
     priv_connected = False, priv_serial = [],
     acquisition = \<lparr>start = PyNone, stop = PyNone\<rparr>,
     device = d, priv_trigger_delay_us = 0,
     priv_acquisition = \<lparr>start = PyInt 0, stop = PyInt 0\<rparr>,
     priv_lock = rlock_free, buffer = [],
     correct_amplitude = None, apply_amp_correction = False, amp_correction = None,
     sdk_log = []\<rparr>"

text \<open>A call of a device method: the device is replaced by the one the method leaves.\<close>

definition call :: "sdk_call \<Rightarrow> ('a, 'h) sdk_method \<Rightarrow> 'h MozzaSpectro \<Rightarrow> 'a reply \<times> 'h MozzaSpectro" where
  "call c m s = (case m (device s) of (r, d) \<Rightarrow> (r, s\<lparr>device := d, sdk_log := sdk_log s @ [c]\<rparr>))"

text \<open>Leaving a \<open>with self._lock\<close> block, normally or by an exception.\<close>

definition unlock :: "'h MozzaSpectro \<Rightarrow> 'h MozzaSpectro" where
  "unlock s = s\<lparr>priv_lock := rlock_release (priv_lock s)\<rparr>"

text \<open>
  \<open>with self._lock: body\<close>. A body that does not come back (it waits or loops) never
  releases the lock.
\<close>

fun comes_back :: "'a outcome \<Rightarrow> bool" where
  "comes_back (Inl Blocked) = False"
| "comes_back (Inl OutOfFuel) = False"
| "comes_back _ = True"

definition with_lock ::
  "thread \<Rightarrow> ('h MozzaSpectro \<Rightarrow> 'a outcome \<times> 'h MozzaSpectro) \<Rightarrow> 'h MozzaSpectro \<Rightarrow>
   'a outcome \<times> 'h MozzaSpectro" where
  "with_lock me body s =
    (case rlock_acquire me (priv_lock s) of
       None \<Rightarrow> (Inl Blocked, s)
     | Some l \<Rightarrow>
        (case body (s\<lparr>priv_lock := l\<rparr>) of
           (r, s1) \<Rightarrow> (r, if comes_back r then unlock s1 else s1)))"

text \<open>A device call whose \<open>MozzaError\<close> the backend lets through, or turns into a \<open>SpectroError\<close>.\<close>

definition passing :: "'a reply \<times> 'h MozzaSpectro \<Rightarrow> 'a outcome \<times> 'h MozzaSpectro" where
  "passing x = (case x of (Failed, s) \<Rightarrow> (Inl (Raise MozzaError), s) | (Ok v, s) \<Rightarrow> (Return v, s))"

definition wrapping :: "'a reply \<times> 'h MozzaSpectro \<Rightarrow> 'a outcome \<times> 'h MozzaSpectro" where
  "wrapping x = (case x of (Failed, s) \<Rightarrow> (Inl (Raise SpectroError), s) | (Ok v, s) \<Rightarrow> (Return v, s))"

text \<open>Statements in sequence: the second runs when the first has returned.\<close>

definition andthen ::
  "'a outcome \<times> 'h MozzaSpectro \<Rightarrow> ('a \<Rightarrow> 'h MozzaSpectro \<Rightarrow> 'b outcome \<times> 'h MozzaSpectro) \<Rightarrow>
   'b outcome \<times> 'h MozzaSpectro" where
  "andthen x f = (case x of (Inl a, s) \<Rightarrow> (Inl a, s) | (Inr v, s) \<Rightarrow> f v s)"

section \<open>Mozza.py: trigger source\<close>

text \<open>\<open>int(x)\<close> of a float: truncation towards zero.\<close>

definition py_int_of_float :: "real \<Rightarrow> int" where
  "py_int_of_float x = (if 0 \<le> x then \<lfloor>x\<rfloor> else \<lceil>x\<rceil>)"

text \<open>
  \<open>MozzaSpectro.set_ext_trigger\<close>. The device's delay is an integer field, the backend's
  \<open>_trigger_delay_us\<close> starts as the float \<open>0.\<close>, hence the \<open>int(...)\<close> on the way back.
\<close>

definition set_ext_trigger ::
  "'h sdk \<Rightarrow> thread \<Rightarrow> bool \<Rightarrow> bool \<Rightarrow> bool \<Rightarrow> 'h MozzaSpectro \<Rightarrow> unit outcome \<times> 'h MozzaSpectro" where
  "set_ext_trigger sdk me flag apply update_delay s =
    (let d1 = (device s)\<lparr>acquisition_params :=
                 (acquisition_params (device s))\<lparr>trigger_source := (if flag then EXTERNAL else INTERNAL)\<rparr>\<rparr>;
         s1 = s\<lparr>device := d1\<rparr>;
         s2 = (if update_delay then
                 (if trigger_source (acquisition_params (device s1)) = INTERNAL
                  then s1\<lparr>priv_trigger_delay_us := real_of_int (trigger_delay_us (acquisition_params (device s1))),
                          device := (device s1)\<lparr>acquisition_params :=
                                      (acquisition_params (device s1))\<lparr>trigger_delay_us := 0\<rparr>\<rparr>\<rparr>
                  else s1\<lparr>device := (device s1)\<lparr>acquisition_params :=
                                      (acquisition_params (device s1))
                                        \<lparr>trigger_delay_us := py_int_of_float (priv_trigger_delay_us s1)\<rparr>\<rparr>\<rparr>)
               else s1)
     in if apply then
          with_lock me
            (\<lambda>t. wrapping (call Call_set_acquisition_params (sdk_set_acquisition_params sdk) t)) s2
        else (Return (), s2))"

definition get_ext_trigger :: "'h MozzaSpectro \<Rightarrow> bool" where
  "get_ext_trigger s = (trigger_source (acquisition_params (device s)) = EXTERNAL)"

section \<open>numpy\<close>

text \<open>
  Integer indexing of a one-dimensional array (\<open>None\<close> is the \<open>IndexError\<close>),
  \<open>np.arange\<close> with a non-zero step, \<open>np.linspace\<close> (\<open>None\<close> is the \<open>ValueError\<close> of a
  negative number of samples) and \<open>np.zeros\<close> of bytes (\<open>None\<close> is the \<open>ValueError\<close> of a
  negative size).
\<close>

definition np_index :: "real list \<Rightarrow> int \<Rightarrow> real option" where
  "np_index xs i =
    (let n = int (length xs); j = (if i < 0 then i + n else i)
     in if 0 \<le> j \<and> j < n then Some (xs ! nat j) else None)"

definition np_arange :: "real \<Rightarrow> real \<Rightarrow> real \<Rightarrow> real list" where
  "np_arange a b step = map (\<lambda>i. a + real i * step) [0..<nat \<lceil>(b - a) / step\<rceil>]"

definition np_linspace :: "real \<Rightarrow> real \<Rightarrow> int \<Rightarrow> real list option" where
  "np_linspace a b num =
    (if num < 0 then None
     else if num = 1 then Some [a]
     else Some (map (\<lambda>i. a + real i * ((b - a) / real_of_int (num - 1))) [0..<nat num]))"

definition np_zeros :: "int \<Rightarrow> byte list option" where
  "np_zeros n = (if n < 0 then None else Some (replicate (nat n) 0))"

text \<open>
  \<open>buf[last:last+len(raw)] = raw[0:len(raw)]\<close> with \<open>last\<close> (here \<open>last0\<close>) inside the buffer: the slice
  on the left is cut at the end of the buffer, and a source longer than the slice is a
  \<open>ValueError\<close> (\<open>None\<close>).
\<close>

definition assign_slice :: "byte list \<Rightarrow> nat \<Rightarrow> byte list \<Rightarrow> byte list option" where
  "assign_slice buf last0 raw =
    (if length raw \<le> length buf - last0
     then Some (take last0 buf @ raw @ drop (last0 + length raw) buf)
     else None)"

text \<open>
  \<open>spec * amp\<close> where either operand is \<open>None\<close> or a one-dimensional array: arrays of equal
  length multiply elementwise, an array of length one is broadcast, other lengths are a
  \<open>ValueError\<close>; \<open>None\<close> times a non-empty array (or \<open>None\<close>) is a \<open>TypeError\<close>, and \<open>None\<close>
  times an empty array is an empty array.
\<close>

fun np_mul :: "real list option \<Rightarrow> real list option \<Rightarrow> error + real list option" where
  "np_mul None None = Inl TypeError"
| "np_mul None (Some ys) = (if ys = [] then Inr (Some []) else Inl TypeError)"
| "np_mul (Some xs) None = (if xs = [] then Inr (Some []) else Inl TypeError)"
| "np_mul (Some xs) (Some ys) =
    (if length xs = length ys then Inr (Some (map2 (*) xs ys))
     else if length xs = 1 then Inr (Some (map ((*) (hd xs)) ys))
     else if length ys = 1 then Inr (Some (map (\<lambda>x. x * hd ys) xs))
     else Inl (ValueError NumpyValueError))"

text \<open>Python 3 \<open>round\<close> of a float: to the nearest integer, a tie to the even one.\<close>

definition py_round :: "real \<Rightarrow> int" where
  "py_round x =
    (let f = \<lfloor>x\<rfloor>; d = x - real_of_int f
     in if d < 1 / 2 then f else if 1 / 2 < d then f + 1 else if even f then f else f + 1)"

section \<open>Mozza.py: the wavenumber table\<close>

text \<open>
  The two branches of the first statement of \<open>load_table\<close>. Without \<open>wnums\<close> the window is stored first and the
  table computed from \<open>self._lambdas\<close> after: \<open>_lambdas\<close> still \<open>None\<close> is a \<open>TypeError\<close>, a
  float or out-of-range index an \<open>IndexError\<close>, \<open>None\<close> as an index passes (numpy's
  \<open>newaxis\<close>) until \<open>stop-start+1\<close> raises a \<open>TypeError\<close>. With \<open>wnums\<close> the stored window is
  the pair of floats \<open>1e7/wnums[0]\<close>, \<open>1e7/wnums[-1]\<close>.
\<close>

definition lambda_at :: "real list \<Rightarrow> pyval \<Rightarrow> error + real option" where
  "lambda_at ls v =
    (case v of
       PyNone \<Rightarrow> Inr None
     | PyFloat x \<Rightarrow> Inl IndexError
     | PyInt i \<Rightarrow> (case np_index ls i of None \<Rightarrow> Inl IndexError | Some x \<Rightarrow> Inr (Some x)))"

definition window_count :: "pyval \<Rightarrow> pyval \<Rightarrow> int option" where
  "window_count a b = (case (a, b) of (PyInt i, PyInt j) \<Rightarrow> Some (j - i + 1) | _ \<Rightarrow> None)"

definition table_of_window ::
  "pyval \<Rightarrow> pyval \<Rightarrow> 'h MozzaSpectro \<Rightarrow> (error + real list) \<times> 'h MozzaSpectro" where
  "table_of_window start0 stop0 s =
    (let s1 = s\<lparr>priv_acquisition := \<lparr>start = start0, stop = stop0\<rparr>\<rparr> in
     case priv_lambdas s1 of
       None \<Rightarrow> (Inl TypeError, s1)
     | Some ls \<Rightarrow>
        (case lambda_at ls start0 of
           Inl e \<Rightarrow> (Inl e, s1)
         | Inr a \<Rightarrow>
            (case lambda_at ls stop0 of
               Inl e \<Rightarrow> (Inl e, s1)
             | Inr b \<Rightarrow>
                (case (a, b, window_count start0 stop0) of
                   (Some x, Some y, Some num) \<Rightarrow>
                     (case np_linspace (10000000 / x) (10000000 / y) num of
                        None \<Rightarrow> (Inl (ValueError NumpyValueError), s1)
                      | Some w \<Rightarrow> (Inr w, s1))
                 | _ \<Rightarrow> (Inl TypeError, s1)))))"

definition table_of_wnums ::
  "real list \<Rightarrow> 'h MozzaSpectro \<Rightarrow> (error + real list) \<times> 'h MozzaSpectro" where
  "table_of_wnums wnums s =
    (if wnums = [] then (Inl IndexError, s)
     else (Inr wnums, s\<lparr>priv_acquisition :=
                          \<lparr>start = PyFloat (10000000 / hd wnums),
                           stop = PyFloat (10000000 / last wnums)\<rparr>\<rparr>))"

text \<open>The \<open>if wnums is None: ... else: ...\<close> that opens \<open>load_table\<close>.\<close>

definition first_table ::
  "pyval \<Rightarrow> pyval \<Rightarrow> real list option \<Rightarrow> 'h MozzaSpectro \<Rightarrow> (error + real list) \<times> 'h MozzaSpectro" where
  "first_table start0 stop0 wnums0 s =
    (case wnums0 of
       None \<Rightarrow> table_of_window start0 stop0 s
     | Some w \<Rightarrow> table_of_wnums w s)"

text \<open>
  The statements of \<open>load_table\<close> after the \<open>with\<close> block: the raw buffer is reallocated to
  \<open>get_raw_data_size(table_length)\<close> bytes, and the correction array recomputed when a
  correction function exists.
\<close>

definition after_table_write ::
  "'h sdk \<Rightarrow> real list \<Rightarrow> 'h MozzaSpectro \<Rightarrow> unit outcome \<times> 'h MozzaSpectro" where
  "after_table_write sdk wnums s =
    (case call (Call_get_raw_data_size (table_length (device s)))
               (sdk_get_raw_data_size sdk (table_length (device s))) s of
       (Failed, s1) \<Rightarrow> (Inl (Raise MozzaError), s1)
     | (Ok n, s1) \<Rightarrow>
        (case np_zeros n of
           None \<Rightarrow> (Inl (Raise (ValueError NumpyValueError)), s1)
         | Some b \<Rightarrow>
            (let s2 = s1\<lparr>buffer := b\<rparr> in
             case correct_amplitude s2 of
               None \<Rightarrow> (Return (), s2)
             | Some f \<Rightarrow>
                (case f wnums of
                   None \<Rightarrow> (Inl (Raise (ValueError NumpyValueError)), s2)
                 | Some a \<Rightarrow> (Return (), s2\<lparr>amp_correction := Some a\<rparr>)))))"

text \<open>
  \<open>MozzaSpectro.load_table\<close>. The method calls itself in its \<open>except\<close> branch; the first
  argument \<open>depth\<close> is the number of frames the interpreter still allows, and a call with
  none left raises \<open>RecursionError\<close>. The lock is released on every way out of the \<open>with\<close>
  block.
\<close>

fun load_table ::
  "'h sdk \<Rightarrow> thread \<Rightarrow> nat \<Rightarrow> pyval \<Rightarrow> pyval \<Rightarrow> real list option \<Rightarrow> 'h MozzaSpectro \<Rightarrow>
   unit outcome \<times> 'h MozzaSpectro" where
  "load_table sdk me 0 start0 stop0 wnums0 s = (Inl (Raise RecursionError), s)"
| "load_table sdk me (Suc depth) start0 stop0 wnums0 s =
    (case first_table start0 stop0 wnums0 s of
       (Inl e, s1) \<Rightarrow> (Inl (Raise e), s1)
     | (Inr wnums, s1) \<Rightarrow>
        (case rlock_acquire me (priv_lock s1) of
           None \<Rightarrow> (Inl Blocked, s1)
         | Some l \<Rightarrow>
            (case call (Call_set_wavenumber_array wnums) (sdk_set_wavenumber_array sdk wnums)
                       (s1\<lparr>priv_lock := l\<rparr>) of
               (Ok _, s2) \<Rightarrow> after_table_write sdk wnums (unlock s2)
             | (Failed, s2) \<Rightarrow>
                (case call Call_end_acquisition (sdk_end_acquisition sdk) s2 of
                   (Failed, s3) \<Rightarrow> (Inl (Raise SpectroError), unlock s3)
                 | (Ok _, s3) \<Rightarrow>
                    (case load_table sdk me depth start0 stop0 (Some wnums) s3 of
                       (Inr _, s4) \<Rightarrow> (Return (), unlock s4)
                     | (Inl a, s4) \<Rightarrow>
                        if a = Raise MozzaError then (Inl (Raise SpectroError), unlock s4)
                        else if comes_back (Inl a :: unit outcome) then (Inl a, unlock s4)
                        else (Inl a, s4))))))"

section \<open>Mozza.py: reading raw data\<close>

text \<open>
  The \<open>while\<close> loop of \<open>read_raw\<close>. Nothing in the source bounds the number of rounds (a
  device that keeps answering with no bytes keeps the loop going), so the model takes the
  number of rounds it may run as \<open>fuel\<close>. It returns the final value of \<open>last\<close>.
\<close>

fun read_chunks ::
  "'h sdk \<Rightarrow> nat \<Rightarrow> int \<Rightarrow> nat \<Rightarrow> int \<Rightarrow> 'h MozzaSpectro \<Rightarrow> nat outcome \<times> 'h MozzaSpectro" where
  "read_chunks sdk fuel npts last0 lp s =
    (if last0 < length (buffer s) then
       (case fuel of
          0 \<Rightarrow> (Inl OutOfFuel, s)
        | Suc fuel' \<Rightarrow>
           (let N = min npts lp in
            case call (Call_read_raw (Some N)) (sdk_read_raw sdk (Some N)) s of
              (Failed, s1) \<Rightarrow> (Inl (Raise MozzaError), s1)
            | (Ok raw, s1) \<Rightarrow>
               (case assign_slice (buffer s1) last0 raw of
                  None \<Rightarrow> (Inl (Raise (ValueError NumpyValueError)), s1)
                | Some b \<Rightarrow>
                   read_chunks sdk fuel' npts (last0 + length raw) (lp - npts) (s1\<lparr>buffer := b\<rparr>))))
     else (Return last0, s))"

declare read_chunks.simps [simp del]

text \<open>One blocking \<open>self.device.read_raw()\<close>.\<close>

definition read_whole :: "'h sdk \<Rightarrow> 'h MozzaSpectro \<Rightarrow> byte list outcome \<times> 'h MozzaSpectro" where
  "read_whole sdk s =
    (case call (Call_read_raw None) (sdk_read_raw sdk None) s of
       (Failed, s1) \<Rightarrow> (Inl (Raise MozzaError), s1)
     | (Ok raw, s1) \<Rightarrow> (Return raw, s1))"

text \<open>\<open>MozzaSpectro.read_raw\<close>.\<close>

definition read_raw :: "'h sdk \<Rightarrow> nat \<Rightarrow> 'h MozzaSpectro \<Rightarrow> byte list outcome \<times> 'h MozzaSpectro" where
  "read_raw sdk fuel s =
    (if trigger_source (acquisition_params (device s)) = EXTERNAL then
       (case call Call_get_trigger_frequency (sdk_get_trigger_frequency sdk) s of
          (Failed, s1) \<Rightarrow> (Inl (Raise MozzaError), s1)
        | (Ok trigger_freq, s1) \<Rightarrow>
           if trigger_freq = 0 then (Inl (Raise TriggerTimeoutError), s1)
           else
            (let acq_time = real (length (buffer s1)) / trigger_freq / 64 in
             if acq_time > 1 then
               (let lp = table_length (device s1);
                    npts = py_round (trigger_freq / real (length (buffer s1))
                                       * real_of_int (table_length (device s1)) * 64 - 1)
                in case read_chunks sdk fuel npts 0 lp s1 of
                     (Inl a, s2) \<Rightarrow> (Inl a, s2)
                   | (Inr last0, s2) \<Rightarrow> (Return (buffer s2), s2))
             else read_whole sdk s1))
     else read_whole sdk s)"

section \<open>Mozza.py: one acquisition\<close>

text \<open>
  The \<open>try\<close> statement of \<open>_acquire_spectrum\<close>, entered with the lock held. The value is
  that of the variable \<open>spec\<close>. A \<open>MozzaError\<close> of \<open>begin_acquisition\<close> or of \<open>read_raw\<close> is
  caught and leaves \<open>spec\<close> as \<open>None\<close>; any other exception, and a \<open>MozzaError\<close> of
  \<open>process_spectrum\<close> in the \<open>else\<close> branch, goes on after the \<open>finally\<close> block, which calls
  \<open>end_acquisition\<close>, ignores its \<open>MozzaError\<close> and releases the lock.
\<close>

definition acquire_try ::
  "'h sdk \<Rightarrow> nat \<Rightarrow> 'h MozzaSpectro \<Rightarrow> real list option outcome \<times> 'h MozzaSpectro" where
  "acquire_try sdk fuel s =
    (case call Call_begin_acquisition (sdk_begin_acquisition sdk) s of
       (Failed, s1) \<Rightarrow> (Return None, s1)
     | (Ok _, s1) \<Rightarrow>
        (case read_raw sdk fuel s1 of
           (Inl a, s2) \<Rightarrow> if a = Raise MozzaError then (Return None, s2) else (Inl a, s2)
         | (Inr raw, s2) \<Rightarrow>
            (case call (Call_process_spectrum raw) (sdk_process_spectrum sdk raw) s2 of
               (Failed, s3) \<Rightarrow> (Inl (Raise MozzaError), s3)
             | (Ok sp, s3) \<Rightarrow> (Return (Some sp), s3))))"

definition acquire_finally :: "'h sdk \<Rightarrow> 'h MozzaSpectro \<Rightarrow> 'h MozzaSpectro" where
  "acquire_finally sdk s =
    (case call Call_end_acquisition (sdk_end_acquisition sdk) s of (_, s1) \<Rightarrow> unlock s1)"

definition acquire_locked ::
  "'h sdk \<Rightarrow> nat \<Rightarrow> 'h MozzaSpectro \<Rightarrow> real list option outcome \<times> 'h MozzaSpectro" where
  "acquire_locked sdk fuel s =
    (case acquire_try sdk fuel s of
       (r, s1) \<Rightarrow> (r, if comes_back r then acquire_finally sdk s1 else s1))"

text \<open>The test that opens \<open>_acquire_spectrum\<close>: the window asked for is not the one stored.\<close>

definition table_differs :: "'h MozzaSpectro \<Rightarrow> bool" where
  "table_differs s =
    (if py_eq (start (priv_acquisition s)) (start (acquisition s))
     then \<not> py_eq (stop (priv_acquisition s)) (stop (acquisition s))
     else True)"

text \<open>The last line of \<open>_acquire_spectrum\<close>.\<close>

definition corrected_spectrum ::
  "real list option \<Rightarrow> 'h MozzaSpectro \<Rightarrow> real list option outcome \<times> 'h MozzaSpectro" where
  "corrected_spectrum spec s =
    (if apply_amp_correction s then
       (case np_mul spec (amp_correction s) of
          Inl e \<Rightarrow> (Inl (Raise e), s)
        | Inr r \<Rightarrow> (Return r, s))
     else (Return spec, s))"

text \<open>
  The first statement of \<open>_acquire_spectrum\<close>: the table is programmed again when the
  window asked for is not the one stored.
\<close>

definition reload_table ::
  "'h sdk \<Rightarrow> thread \<Rightarrow> nat \<Rightarrow> 'h MozzaSpectro \<Rightarrow> unit outcome \<times> 'h MozzaSpectro" where
  "reload_table sdk me depth s =
    (if table_differs s
     then load_table sdk me depth (start (acquisition s)) (stop (acquisition s)) None s
     else (Return (), s))"

text \<open>
  \<open>MozzaSpectro._acquire_spectrum\<close>, called by thread \<open>me\<close>. \<open>self._lock.acquire(False)\<close>
  does not wait: with the lock held by another thread the method returns \<open>None\<close>.
\<close>

definition acquire_spectrum ::
  "'h sdk \<Rightarrow> thread \<Rightarrow> nat \<Rightarrow> nat \<Rightarrow> bool \<Rightarrow> 'h MozzaSpectro \<Rightarrow>
   real list option outcome \<times> 'h MozzaSpectro" where
  "acquire_spectrum sdk me depth fuel background_mode s =
    (case reload_table sdk me depth s of
       (Inl a, s1) \<Rightarrow> (Inl a, s1)
     | (Inr _, s1) \<Rightarrow>
        (case rlock_acquire me (priv_lock s1) of
           None \<Rightarrow> (Return None, s1)
         | Some l \<Rightarrow>
            (case acquire_locked sdk fuel (s1\<lparr>priv_lock := l\<rparr>) of
               (Inl a, s2) \<Rightarrow> (Inl a, s2)
             | (Inr spec, s2) \<Rightarrow> corrected_spectrum spec s2)))"

text \<open>\<open>MozzaSpectro.acquire_raw\<close>: the same shape, under a blocking \<open>with self._lock\<close>.\<close>

definition acquire_raw_try ::
  "'h sdk \<Rightarrow> nat \<Rightarrow> 'h MozzaSpectro \<Rightarrow>
   (real list option \<times> real list option) outcome \<times> 'h MozzaSpectro" where
  "acquire_raw_try sdk fuel s =
    (case call Call_begin_acquisition (sdk_begin_acquisition sdk) s of
       (Failed, s1) \<Rightarrow> (Return (None, None), s1)
     | (Ok nbytes, s1) \<Rightarrow>
        (case read_raw sdk fuel s1 of
           (Inl a, s2) \<Rightarrow> if a = Raise MozzaError then (Return (None, None), s2) else (Inl a, s2)
         | (Inr raw, s2) \<Rightarrow>
            (case call (Call_separate_sig_ref raw) (sdk_separate_sig_ref sdk raw) s2 of
               (Failed, s3) \<Rightarrow> (Inl (Raise MozzaError), s3)
             | (Ok (signal, reference), s3) \<Rightarrow> (Return (Some signal, Some reference), s3))))"

definition acquire_raw ::
  "'h sdk \<Rightarrow> thread \<Rightarrow> nat \<Rightarrow> 'h MozzaSpectro \<Rightarrow>
   (real list option \<times> real list option) outcome \<times> 'h MozzaSpectro" where
  "acquire_raw sdk me fuel s =
    with_lock me
      (\<lambda>t. case acquire_raw_try sdk fuel t of
              (r, t1) \<Rightarrow>
                (r, if comes_back r
                    then (case call Call_end_acquisition (sdk_end_acquisition sdk) t1 of (_, t2) \<Rightarrow> t2)
                    else t1)) s"

section \<open>Mozza.py: parameters, gains and offsets\<close>

definition disconnect_device :: "'h sdk \<Rightarrow> 'h MozzaSpectro \<Rightarrow> unit outcome \<times> 'h MozzaSpectro" where
  "disconnect_device sdk s = passing (call Call_disconnect (sdk_disconnect sdk) s)"

definition set_exposure :: "real \<Rightarrow> 'h MozzaSpectro \<Rightarrow> real outcome \<times> 'h MozzaSpectro" where
  "set_exposure exposure s = (Return 0, s)"

definition get_exposure :: "'h MozzaSpectro \<Rightarrow> real outcome \<times> 'h MozzaSpectro" where
  "get_exposure s = (Return 0, s)"

definition reset :: "'h MozzaSpectro \<Rightarrow> unit outcome \<times> 'h MozzaSpectro" where
  "reset s = (Return (), s)"

definition set_rf_attenuation ::
  "'h sdk \<Rightarrow> thread \<Rightarrow> real \<Rightarrow> 'h MozzaSpectro \<Rightarrow> unit outcome \<times> 'h MozzaSpectro" where
  "set_rf_attenuation sdk me v s =
    with_lock me
      (\<lambda>t. wrapping (call (Call_set_rf_attenuation (Some v)) (sdk_set_rf_attenuation sdk (Some v)) t)) s"

definition setup_gains :: "'h sdk \<Rightarrow> 'h MozzaSpectro \<Rightarrow> unit outcome \<times> 'h MozzaSpectro" where
  "setup_gains sdk s =
    passing (call (Call_setup_gains (signal_high_gain (acquisition_params (device s)))
                                    (reference_high_gain (acquisition_params (device s))))
                  (sdk_setup_gains sdk (signal_high_gain (acquisition_params (device s)))
                                       (reference_high_gain (acquisition_params (device s)))) s)"

definition set_all_device_params ::
  "'h sdk \<Rightarrow> thread \<Rightarrow> 'h MozzaSpectro \<Rightarrow> unit outcome \<times> 'h MozzaSpectro" where
  "set_all_device_params sdk me s =
    with_lock me
      (\<lambda>t. andthen (passing (call Call_set_acquisition_params (sdk_set_acquisition_params sdk) t))
        (\<lambda>_ t1. andthen (passing (call Call_set_process_params (sdk_set_process_params sdk) t1))
          (\<lambda>_ t2. andthen (passing (call (Call_set_rf_attenuation None) (sdk_set_rf_attenuation sdk None) t2))
            (\<lambda>_ t3. setup_gains sdk t3)))) s"

definition set_acquisition_params :: "'h sdk \<Rightarrow> 'h MozzaSpectro \<Rightarrow> unit outcome \<times> 'h MozzaSpectro" where
  "set_acquisition_params sdk s =
    wrapping (call Call_set_acquisition_params (sdk_set_acquisition_params sdk) s)"

definition set_process_params :: "'h sdk \<Rightarrow> 'h MozzaSpectro \<Rightarrow> unit outcome \<times> 'h MozzaSpectro" where
  "set_process_params sdk s =
    wrapping (call Call_set_process_params (sdk_set_process_params sdk) s)"

definition ext_trigger_freq :: "'h sdk \<Rightarrow> thread \<Rightarrow> 'h MozzaSpectro \<Rightarrow> real outcome \<times> 'h MozzaSpectro" where
  "ext_trigger_freq sdk me s =
    with_lock me (\<lambda>t. passing (call Call_get_trigger_frequency (sdk_get_trigger_frequency sdk) t)) s"

text \<open>The property setters \<open>acquisition_params\<close> and \<open>process_params\<close>.\<close>

definition assign_acquisition_params ::
  "AcquisitionParams \<Rightarrow> 'h MozzaSpectro \<Rightarrow> unit outcome \<times> 'h MozzaSpectro" where
  "assign_acquisition_params params s =
    (Return (), s\<lparr>device := (device s)\<lparr>acquisition_params := params\<rparr>\<rparr>)"

definition assign_process_params ::
  "ProcessParams \<Rightarrow> 'h MozzaSpectro \<Rightarrow> unit outcome \<times> 'h MozzaSpectro" where
  "assign_process_params params s =
    (Return (), s\<lparr>device := (device s)\<lparr>process_params := params\<rparr>\<rparr>)"

definition measure_offsets ::
  "'h sdk \<Rightarrow> thread \<Rightarrow> 'h MozzaSpectro \<Rightarrow> (real \<times> real) outcome \<times> 'h MozzaSpectro" where
  "measure_offsets sdk me s =
    andthen
      (with_lock me
        (\<lambda>t. passing (call (Call_measure_offsets (signal_high_gain (acquisition_params (device t)))
                                                 (reference_high_gain (acquisition_params (device t))))
                            (sdk_measure_offsets sdk (signal_high_gain (acquisition_params (device t)))
                                                     (reference_high_gain (acquisition_params (device t)))) t)) s)
      (\<lambda>offsets s1.
         (let s2 = s1\<lparr>device := (device s1)\<lparr>process_params :=
                      (process_params (device s1))\<lparr>signal_offset := fst offsets,
                                                   reference_offset := snd offsets\<rparr>\<rparr>\<rparr>
          in andthen (passing (call (Call_set_rf_attenuation None) (sdk_set_rf_attenuation sdk None) s2))
              (\<lambda>_ s3. andthen (passing (call Call_set_acquisition_params (sdk_set_acquisition_params sdk) s3))
                (\<lambda>_ s4. andthen (passing (call Call_set_process_params (sdk_set_process_params sdk) s4))
                  (\<lambda>_ s5. (Return offsets, s5))))))"

definition set_auto_params ::
  "'h sdk \<Rightarrow> real \<Rightarrow> real \<Rightarrow> 'h MozzaSpectro \<Rightarrow>
   (AcquisitionParams \<times> ProcessParams) outcome \<times> 'h MozzaSpectro" where
  "set_auto_params sdk trigger_to_laser_us acquisition_time_us s =
    andthen
      (wrapping (call (Call_set_auto_params (point_repetition (acquisition_params (device s)))
                                            (reference_offset (process_params (device s)))
                                            (signal_high_gain (acquisition_params (device s)))
                                            (reference_high_gain (acquisition_params (device s)))
                                            trigger_to_laser_us acquisition_time_us)
                      (sdk_set_auto_params sdk (point_repetition (acquisition_params (device s)))
                                               (reference_offset (process_params (device s)))
                                               (signal_high_gain (acquisition_params (device s)))
                                               (reference_high_gain (acquisition_params (device s)))
                                               trigger_to_laser_us acquisition_time_us) s))
      (\<lambda>_ s1. (Return (acquisition_params (device s1), process_params (device s1)), s1))"

section \<open>Mozza.py: amplitude correction\<close>

text \<open>
  What \<open>wavelength, amplitude = np.loadtxt(path, unpack=True)\<close> can do: raise \<open>OSError\<close>
  (no such file), raise \<open>ValueError\<close> (text that is not numbers, rows of different
  lengths, or a number of columns other than two, which fails in the unpacking), bind two
  arrays (a file of two columns and several rows), or bind two scalars (a file of one row
  of two numbers, which numpy squeezes to one dimension). The file system and
  \<open>np.interp\<close> are parameters, the record \<open>env\<close>: \<open>np_loadtxt n\<close> is what \<open>np.loadtxt\<close> does
  on the file \<open>'%04d_AmplitudeCorrection.txt' % n\<close>, and \<open>np_interp x xp fp\<close> is
  \<open>np.interp(x, xp, fp)\<close>, \<open>None\<close> where it raises a \<open>ValueError\<close>.
\<close>

datatype loadtxt_result =
    LoadOSError
  | LoadValueError
  | LoadedArrays "real list" "real list"
  | LoadedScalars real real

record env =
  np_loadtxt :: "int \<Rightarrow> loadtxt_result"
  np_interp :: "real list \<Rightarrow> real list \<Rightarrow> real list \<Rightarrow> real list option"

text \<open>
  \<open>MozzaSpectro.load_amp_correction\<close>. Only \<open>OSError\<close> is caught; with two scalars
  \<open>len(amplitude)\<close> is a \<open>TypeError\<close>.
\<close>

definition load_amp_correction ::
  "env \<Rightarrow> int \<Rightarrow> 'h MozzaSpectro \<Rightarrow> bool outcome \<times> 'h MozzaSpectro" where
  "load_amp_correction e serial_num s =
    (let s1 = s\<lparr>correct_amplitude := None\<rparr> in
     case np_loadtxt e serial_num of
       LoadOSError \<Rightarrow> (Return False, s1\<lparr>apply_amp_correction := False\<rparr>)
     | LoadValueError \<Rightarrow> (Inl (Raise (ValueError NumpyValueError)), s1)
     | LoadedScalars wavelength amplitude \<Rightarrow>
         if amplitude < 0 then (Return False, s1\<lparr>apply_amp_correction := False\<rparr>)
         else (Inl (Raise TypeError), s1)
     | LoadedArrays wavelength amplitude \<Rightarrow>
         if list_ex (\<lambda>a. a < 0) amplitude then (Return False, s1\<lparr>apply_amp_correction := False\<rparr>)
         else if length amplitude \<noteq> length wavelength
         then (Return False, s1\<lparr>apply_amp_correction := False\<rparr>)
         else (Return True,
               s1\<lparr>correct_amplitude :=
                    Some (\<lambda>x. np_interp e x (map (\<lambda>w. 10000000 / w) (rev wavelength)) (rev amplitude))\<rparr>))"

section \<open>Mozza.py: connecting\<close>

text \<open>
  \<open>serial.split('#')\<close> and \<open>int(field)\<close>. A string is a list of characters of code
  points 0 to 255. \<open>int\<close> strips the white space at both ends, which among these code
  points is 9 to 13, 32, 133 and 160 (the separators 28 to 31 are not stripped), takes one
  optional sign and then the decimal digits \<open>0\<close> to \<open>9\<close>, single underscores allowed between
  digits; anything else is a \<open>ValueError\<close> (\<open>None\<close>).
\<close>

fun py_split :: "char \<Rightarrow> string \<Rightarrow> string list" where
  "py_split sep [] = [[]]"
| "py_split sep (c # cs) =
    (if c = sep then [] # py_split sep cs
     else (case py_split sep cs of
             [] \<Rightarrow> [[c]]
           | w # ws \<Rightarrow> (c # w) # ws))"

definition is_space :: "char \<Rightarrow> bool" where
  "is_space c = ((of_char c :: nat) \<in> {9, 10, 11, 12, 13, 32, 133, 160})"

definition is_digit :: "char \<Rightarrow> bool" where
  "is_digit c = (48 \<le> (of_char c :: nat) \<and> (of_char c :: nat) \<le> 57)"

definition digit_value :: "char \<Rightarrow> int" where
  "digit_value c = int (of_char c) - 48"

fun py_digits :: "int \<Rightarrow> string \<Rightarrow> int option" where
  "py_digits acc [] = Some acc"
| "py_digits acc [c] = (if is_digit c then Some (10 * acc + digit_value c) else None)"
| "py_digits acc (c # d # cs) =
    (if is_digit c then py_digits (10 * acc + digit_value c) (d # cs)
     else if c = CHR ''_'' \<and> is_digit d then py_digits acc (d # cs)
     else None)"

definition py_unsigned :: "string \<Rightarrow> int option" where
  "py_unsigned str =
    (case str of
       [] \<Rightarrow> None
     | c # cs \<Rightarrow> if is_digit c then py_digits (digit_value c) cs else None)"

definition py_strip :: "string \<Rightarrow> string" where
  "py_strip str = rev (dropWhile is_space (rev (dropWhile is_space str)))"

definition py_int :: "string \<Rightarrow> int option" where
  "py_int str =
    (case py_strip str of
       [] \<Rightarrow> None
     | c # cs \<Rightarrow>
        if c = CHR ''-'' then map_option uminus (py_unsigned cs)
        else if c = CHR ''+'' then py_unsigned cs
        else py_unsigned (c # cs))"

text \<open>\<open>int(serial.split('#')[1])\<close> with the exception it raises.\<close>

definition serial_number :: "string \<Rightarrow> error + int" where
  "serial_number serial =
    (case py_split CHR ''#'' serial of
       _ # field # _ \<Rightarrow>
         (case py_int field of
            None \<Rightarrow> Inl (ValueError IntLiteralError)
          | Some n \<Rightarrow> Inr n)
     | _ \<Rightarrow> Inl IndexError)"

text \<open>The wavelength axis \<open>1e7/np.arange(max_wn, min_wn, -self.resolution_cm)\<close>.\<close>

definition calibration_lambdas :: "real list" where
  "calibration_lambdas =
    map (\<lambda>w. 10000000 / w)
      (np_arange (snd calibration_limits) (fst calibration_limits) (- resolution_cm))"

text \<open>
  \<open>MozzaSpectro.connect_device\<close>. Of the exceptions of the first statement only
  \<open>IndexError\<close> and \<open>TypeError\<close> become a \<open>SpectroError\<close>.
\<close>

definition connect_device ::
  "'h sdk \<Rightarrow> env \<Rightarrow> string \<Rightarrow> 'h MozzaSpectro \<Rightarrow> unit outcome \<times> 'h MozzaSpectro" where
  "connect_device sdk e serial s =
    (case serial_number serial of
       Inl err \<Rightarrow>
         if err = IndexError \<or> err = TypeError then (Inl (Raise SpectroError), s)
         else (Inl (Raise err), s)
     | Inr serial_num \<Rightarrow>
        andthen (wrapping (call (Call_connect serial_num) (sdk_connect sdk serial_num) s))
         (\<lambda>_ s1.
           andthen
            (case call Call_get_sensors (sdk_get_sensors sdk) s1 of
               (Ok _, s2) \<Rightarrow> (Return (), s2)
             | (Failed, s2) \<Rightarrow> wrapping (call Call_reset_all (sdk_reset_all sdk) s2))
            (\<lambda>_ s3.
              (let s4 = s3\<lparr>priv_lambdas := Some calibration_lambdas,
                           priv_npixels := Some (int (length calibration_lambdas)),
                           priv_spectrum := Some (replicate (length calibration_lambdas) 0),
                           priv_connected := True,
                           priv_serial := serial\<rparr>
               in andthen (passing (call Call_set_default_params (sdk_set_default_params sdk) s4))
                   (\<lambda>_ s5. andthen (load_amp_correction e serial_num s5)
                     (\<lambda>_ s6. (Return (), s6)))))))"

section \<open>A scripted device\<close>

text \<open>
  A stand-in for the vendor SDK and the file system, to run the backend on concrete
  inputs. The device fails the next \<open>wn_failures\<close> table writes, fails
  \<open>begin_acquisition\<close>, \<open>end_acquisition\<close> or a blocking read when told to, reports the
  trigger frequency \<open>frequency\<close>, sends four bytes per point asked for (and fails when asked
  for no point), and processes any
  raw data into the spectrum 1, 2, 3, ... of the table's length.
\<close>

record sim_hw =
  wn_failures :: nat
  begin_fails :: bool
  end_fails :: bool
  read_fails :: bool
  frequency :: real

definition sim_ok :: "(unit, sim_hw) sdk_method" where
  "sim_ok d = (Ok (), d)"

definition sim_set_wavenumber_array :: "real list \<Rightarrow> (unit, sim_hw) sdk_method" where
  "sim_set_wavenumber_array w d =
    (if 0 < wn_failures (hw d)
     then (Failed, d\<lparr>hw := (hw d)\<lparr>wn_failures := wn_failures (hw d) - 1\<rparr>\<rparr>)
     else (Ok (), d\<lparr>table_length := int (length w)\<rparr>))"

definition sim_begin_acquisition :: "(int, sim_hw) sdk_method" where
  "sim_begin_acquisition d =
    (if begin_fails (hw d) then (Failed, d) else (Ok (4 * table_length d), d))"

definition sim_end_acquisition :: "(unit, sim_hw) sdk_method" where
  "sim_end_acquisition d = (if end_fails (hw d) then (Failed, d) else (Ok (), d))"

definition sim_read_raw :: "int option \<Rightarrow> (byte list, sim_hw) sdk_method" where
  "sim_read_raw n d =
    (case n of
       None \<Rightarrow> if read_fails (hw d) then (Failed, d)
               else (Ok (replicate (nat (4 * table_length d)) 1), d)
     | Some k \<Rightarrow> if k \<le> 0 then (Failed, d) else (Ok (replicate (nat (4 * k)) 1), d))"

definition sim_process_spectrum :: "byte list \<Rightarrow> (real list, sim_hw) sdk_method" where
  "sim_process_spectrum raw d = (Ok (map (\<lambda>i. real i + 1) [0..<nat (table_length d)]), d)"

definition sim_sdk :: "sim_hw sdk" where
  "sim_sdk =
    \<lparr>sdk_connect = (\<lambda>n. sim_ok),
     sdk_disconnect = sim_ok,
     sdk_get_sensors = sim_ok,
     sdk_reset_all = sim_ok,
     sdk_set_default_params = sim_ok,
     sdk_set_acquisition_params = sim_ok,
     sdk_set_process_params = sim_ok,
     sdk_set_rf_attenuation = (\<lambda>v. sim_ok),
     sdk_setup_gains = (\<lambda>a b. sim_ok),
     sdk_set_wavenumber_array = sim_set_wavenumber_array,
     sdk_get_raw_data_size = (\<lambda>n d. (Ok (4 * n), d)),
     sdk_begin_acquisition = sim_begin_acquisition,
     sdk_end_acquisition = sim_end_acquisition,
     sdk_get_trigger_frequency = (\<lambda>d. (Ok (frequency (hw d)), d)),
     sdk_read_raw = sim_read_raw,
     sdk_process_spectrum = sim_process_spectrum,
     sdk_separate_sig_ref = (\<lambda>raw d. (Ok ([1], [1]), d)),
     sdk_measure_offsets = (\<lambda>a b d. (Ok (0, 0), d)),
     sdk_set_auto_params = (\<lambda>a b c d e f. sim_ok)\<rparr>"

definition sim_device :: "sim_hw MozzaUSB" where
  "sim_device =
    \<lparr>acquisition_params =
       \<lparr>trigger_source = INTERNAL, trigger_delay_us = 0, signal_high_gain = False,
        reference_high_gain = False, point_repetition = 1\<rparr>,
     process_params = \<lparr>signal_offset = 0, reference_offset = 0\<rparr>,
     table_length = 0,
     rf_attenuation = 0,
     hw = \<lparr>wn_failures = 0, begin_fails = False, end_fails = False, read_fails = False,
           frequency = 1000\<rparr>\<rparr>"

text \<open>
  A file system where every correction file reads as \<open>r\<close>, with an interpolation that
  answers the first sample everywhere.
\<close>

definition sim_env :: "loadtxt_result \<Rightarrow> env" where
  "sim_env r =
    \<lparr>np_loadtxt = (\<lambda>n. r),
     np_interp = (\<lambda>x xp fp. if xp = [] then None else Some (map (\<lambda>v. hd fp) x))\<rparr>"

section \<open>Notions used in the properties\<close>

text \<open>
  The resolved index of the specification (a negative value means \<open>npixels + value\<close>), the
  window condition \<open>0 \<le> start < stop < npixels\<close>, and the two range errors of
  \<open>make_acquisition\<close>.
\<close>

definition resolve_index :: "int \<Rightarrow> int \<Rightarrow> int" where
  "resolve_index npixels i = (if i < 0 then i + npixels else i)"

definition window_ok :: "int \<Rightarrow> int \<Rightarrow> int \<Rightarrow> bool" where
  "window_ok npixels a b = (0 \<le> a \<and> a < b \<and> b < npixels)"

fun range_abort :: "abort \<Rightarrow> bool" where
  "range_abort (Raise (ValueError (StopNotInRange a b))) = True"
| "range_abort (Raise (ValueError (StartNotBeforeStop a b))) = True"
| "range_abort _ = False"

definition is_range_error :: "'a outcome \<Rightarrow> bool" where
  "is_range_error r = (case r of Inl a \<Rightarrow> range_abort a | Inr v \<Rightarrow> False)"

text \<open>The attributes that no device call, table load or acquisition assigns.\<close>

definition kept ::
  "'h MozzaSpectro \<Rightarrow>
   Acquisition \<times> bool \<times> (real list \<Rightarrow> real list option) option \<times> bool \<times> int option \<times> real list option" where
  "kept s =
    (acquisition s, apply_amp_correction s, correct_amplitude s, priv_connected s,
     priv_npixels s, priv_lambdas s)"

text \<open>The scripted device after \<open>connect_device('Mozza#12')\<close>, with no correction file.\<close>

definition sim_connected :: "sim_hw MozzaSpectro" where
  "sim_connected = snd (connect_device sim_sdk (sim_env LoadOSError) ''Mozza#12'' (init sim_device))"

text \<open>
  The methods of the backend that can assign an attribute, as calls with their arguments;
  \<open>state_after\<close> is the state a call leaves (whether it returns or raises), and \<open>run\<close> the
  state after a sequence of calls, each made by some thread. The property getters
  (\<open>spectrum\<close>, \<open>lambdas\<close>, \<open>connected\<close>, \<open>serial\<close>, \<open>rf_attenuation\<close>, \<open>get_ext_trigger\<close>)
  assign nothing, and the class method \<open>get_serials\<close> has no instance.
\<close>

datatype method_call =
    M_connect_device string
  | M_disconnect_device
  | M_set_exposure real
  | M_get_exposure
  | M_set_ext_trigger bool bool bool
  | M_load_table pyval pyval "real list option"
  | M_read_raw
  | M_measure_offsets
  | M_acquire_spectrum bool
  | M_reset
  | M_set_rf_attenuation real
  | M_assign_acquisition_params AcquisitionParams
  | M_assign_process_params ProcessParams
  | M_setup_gains
  | M_set_all_device_params
  | M_set_acquisition_params
  | M_set_process_params
  | M_ext_trigger_freq
  | M_acquire_raw
  | M_set_auto_params real real
  | M_load_amp_correction int
  | M_make_acquisition int int bool

fun state_after ::
  "'h sdk \<Rightarrow> env \<Rightarrow> nat \<Rightarrow> nat \<Rightarrow> thread \<Rightarrow> method_call \<Rightarrow> 'h MozzaSpectro \<Rightarrow> 'h MozzaSpectro" where
  "state_after sdk e depth fuel me (M_connect_device serial) s = snd (connect_device sdk e serial s)"
| "state_after sdk e depth fuel me M_disconnect_device s = snd (disconnect_device sdk s)"
| "state_after sdk e depth fuel me (M_set_exposure x) s = snd (set_exposure x s)"
| "state_after sdk e depth fuel me M_get_exposure s = snd (get_exposure s)"
| "state_after sdk e depth fuel me (M_set_ext_trigger flag apply update_delay) s =
     snd (set_ext_trigger sdk me flag apply update_delay s)"
| "state_after sdk e depth fuel me (M_load_table a b w) s = snd (load_table sdk me depth a b w s)"
| "state_after sdk e depth fuel me M_read_raw s = snd (read_raw sdk fuel s)"
| "state_after sdk e depth fuel me M_measure_offsets s = snd (measure_offsets sdk me s)"
| "state_after sdk e depth fuel me (M_acquire_spectrum bg) s = snd (acquire_spectrum sdk me depth fuel bg s)"
| "state_after sdk e depth fuel me M_reset s = snd (reset s)"
| "state_after sdk e depth fuel me (M_set_rf_attenuation v) s = snd (set_rf_attenuation sdk me v s)"
| "state_after sdk e depth fuel me (M_assign_acquisition_params p) s = snd (assign_acquisition_params p s)"
| "state_after sdk e depth fuel me (M_assign_process_params p) s = snd (assign_process_params p s)"
| "state_after sdk e depth fuel me M_setup_gains s = snd (setup_gains sdk s)"
| "state_after sdk e depth fuel me M_set_all_device_params s = snd (set_all_device_params sdk me s)"
| "state_after sdk e depth fuel me M_set_acquisition_params s = snd (set_acquisition_params sdk s)"
| "state_after sdk e depth fuel me M_set_process_params s = snd (set_process_params sdk s)"
| "state_after sdk e depth fuel me M_ext_trigger_freq s = snd (ext_trigger_freq sdk me s)"
| "state_after sdk e depth fuel me M_acquire_raw s = snd (acquire_raw sdk me fuel s)"
| "state_after sdk e depth fuel me (M_set_auto_params a b) s = snd (set_auto_params sdk a b s)"
| "state_after sdk e depth fuel me (M_load_amp_correction n) s = snd (load_amp_correction e n s)"
| "state_after sdk e depth fuel me (M_make_acquisition a b bg) s =
     snd (make_acquisition (acquire_spectrum sdk me depth fuel) a b bg s)"

fun run ::
  "'h sdk \<Rightarrow> env \<Rightarrow> nat \<Rightarrow> nat \<Rightarrow> (thread \<times> method_call) list \<Rightarrow> 'h MozzaSpectro \<Rightarrow> 'h MozzaSpectro" where
  "run sdk e depth fuel [] s = s"
| "run sdk e depth fuel ((me, m) # ms) s = run sdk e depth fuel ms (state_after sdk e depth fuel me m s)"

text \<open>The connected scripted device whose next \<open>k\<close> table writes fail.\<close>

definition flaky :: "nat \<Rightarrow> sim_hw MozzaSpectro" where
  "flaky k =
    sim_connected\<lparr>device := (device sim_connected)\<lparr>hw := (hw (device sim_connected))\<lparr>wn_failures := k\<rparr>\<rparr>\<rparr>"

text \<open>
  The connected scripted device with a correction file of two rows, after the caller has
  enabled the correction; the window of pixels 0 to 1; a device whose
  \<open>begin_acquisition\<close> fails; and a backend whose lock is held by thread \<open>t\<close>.
\<close>

definition sim_corrected :: "sim_hw MozzaSpectro" where
  "sim_corrected =
    (snd (load_amp_correction (sim_env (LoadedArrays [1000, 2000] [1, 2])) 12 sim_connected))
      \<lparr>apply_amp_correction := True\<rparr>"

definition window01 :: Acquisition where
  "window01 = \<lparr>start = PyInt 0, stop = PyInt 1\<rparr>"

definition begin_failing :: "sim_hw MozzaSpectro \<Rightarrow> sim_hw MozzaSpectro" where
  "begin_failing s = s\<lparr>device := (device s)\<lparr>hw := (hw (device s))\<lparr>begin_fails := True\<rparr>\<rparr>\<rparr>"

definition held_by :: "thread \<Rightarrow> 'h MozzaSpectro \<Rightarrow> 'h MozzaSpectro" where
  "held_by t s = s\<lparr>priv_lock := \<lparr>lock_owner = Some t, lock_depth = 1\<rparr>\<rparr>"

text \<open>The connected scripted device after one acquisition of the window of pixels 0 to 1.\<close>

definition sim_acquired :: "sim_hw MozzaSpectro" where
  "sim_acquired = snd (acquire_spectrum sim_sdk 0 5 5 False (sim_connected\<lparr>acquisition := window01\<rparr>))"

text \<open>A character that cannot occur in an integer literal: no digit, sign, underscore or white space.\<close>

definition plain_char :: "char \<Rightarrow> bool" where
  "plain_char c =
    (if is_digit c then False
     else if is_space c then False
     else c \<notin> {CHR ''+'', CHR ''-'', CHR ''_''})"







section \<open>Auxiliary facts\<close>

lemma is_range_error_simps [simp]:
  "is_range_error (Inl a) = range_abort a"
  "is_range_error (Inr v) = False"
  by (simp_all add: is_range_error_def)

lemma make_acquisition_connected:
  assumes "priv_connected s" and "priv_npixels s = Some n"
  shows "make_acquisition acq start0 stop0 bg s =
    (if resolve_index n stop0 < 1 \<or> n \<le> resolve_index n stop0
     then (Inl (Raise (ValueError (StopNotInRange (resolve_index n stop0) n))), s)
     else if resolve_index n start0 < 0 \<or> resolve_index n stop0 \<le> resolve_index n start0
     then (Inl (Raise (ValueError (StartNotBeforeStop (resolve_index n start0) (resolve_index n stop0)))), s)
     else (case acq bg (s\<lparr>acquisition :=
                           \<lparr>start = PyInt (resolve_index n start0), stop = PyInt (resolve_index n stop0)\<rparr>\<rparr>) of
             (Inl a, s1) \<Rightarrow> (Inl a, s1)
           | (Inr spec, s1) \<Rightarrow> (Return (), s1\<lparr>priv_spectrum := spec\<rparr>)))"
  using assms by (simp add: make_acquisition_def resolve_index_def Let_def)

lemma window_ok_checks:
  "window_ok n a b \<longleftrightarrow> \<not> (b < 1 \<or> n \<le> b) \<and> \<not> (a < 0 \<or> b \<le> a)"
  by (auto simp: window_ok_def)

lemma kept_updates [simp]:
  "kept (s\<lparr>priv_lock := l\<rparr>) = kept s"
  "kept (s\<lparr>buffer := b\<rparr>) = kept s"
  "kept (s\<lparr>priv_acquisition := w\<rparr>) = kept s"
  "kept (s\<lparr>amp_correction := a\<rparr>) = kept s"
  "kept (s\<lparr>device := d\<rparr>) = kept s"
  "kept (s\<lparr>sdk_log := g\<rparr>) = kept s"
  "kept (s\<lparr>priv_trigger_delay_us := u\<rparr>) = kept s"
  "kept (unlock s) = kept s"
  by (simp_all add: kept_def unlock_def)

lemma call_kept: "call c m s = (r, s1) \<Longrightarrow> kept s1 = kept s"
  by (auto simp: call_def split: prod.splits)

lemma table_of_window_kept: "table_of_window a b s = (r, s1) \<Longrightarrow> kept s1 = kept s"
  by (auto simp: table_of_window_def Let_def split: option.splits sum.splits)

lemma table_of_wnums_kept: "table_of_wnums w s = (r, s1) \<Longrightarrow> kept s1 = kept s"
  by (auto simp: table_of_wnums_def split: if_splits)

lemma after_table_write_kept: "after_table_write sdk w s = (r, s1) \<Longrightarrow> kept s1 = kept s"
  by (auto simp: after_table_write_def Let_def
           split: prod.splits reply.splits option.splits dest!: call_kept)

lemma load_table_kept: "load_table sdk me depth a b w s = (r, s1) \<Longrightarrow> kept s1 = kept s"
proof (induction depth arbitrary: w s r s1)
  case 0
  then show ?case by simp
next
  case (Suc depth)
  show ?case
    using Suc.prems
    by (auto simp: first_table_def split: option.splits prod.splits sum.splits reply.splits if_splits
             dest!: table_of_window_kept table_of_wnums_kept call_kept after_table_write_kept
                    Suc.IH)
qed

lemma read_chunks_kept: "read_chunks sdk fuel npts l lp s = (r, s1) \<Longrightarrow> kept s1 = kept s"
proof (induction fuel arbitrary: l lp s)
  case 0
  then show ?case
    by (subst (asm) read_chunks.simps) (auto split: if_splits)
next
  case (Suc fuel)
  show ?case
    using Suc.prems
    by (subst (asm) read_chunks.simps)
       (auto split: if_splits prod.splits reply.splits option.splits simp: Let_def
             dest!: call_kept Suc.IH)
qed

lemma read_whole_kept: "read_whole sdk s = (r, s1) \<Longrightarrow> kept s1 = kept s"
  by (auto simp: read_whole_def split: prod.splits reply.splits dest!: call_kept)

lemma read_raw_kept: "read_raw sdk fuel s = (r, s1) \<Longrightarrow> kept s1 = kept s"
  by (auto simp: read_raw_def Let_def split: prod.splits reply.splits if_splits sum.splits
           dest!: call_kept read_whole_kept read_chunks_kept)

lemma acquire_locked_kept: "acquire_locked sdk fuel s = (r, s1) \<Longrightarrow> kept s1 = kept s"
  by (auto simp: acquire_locked_def acquire_try_def acquire_finally_def
           split: prod.splits reply.splits if_splits sum.splits
           dest!: call_kept read_raw_kept)

lemma corrected_spectrum_state: "corrected_spectrum spec s = (r, s1) \<Longrightarrow> s1 = s"
  by (auto simp: corrected_spectrum_def split: if_splits sum.splits)

lemma acquire_spectrum_kept: "acquire_spectrum sdk me depth fuel bg s = (r, s1) \<Longrightarrow> kept s1 = kept s"
  by (auto simp: acquire_spectrum_def reload_table_def
           split: prod.splits if_splits sum.splits option.splits
           dest!: load_table_kept acquire_locked_kept corrected_spectrum_state)

lemma length_calibration_lambdas: "length calibration_lambdas = 3500"
  by (simp add: calibration_lambdas_def np_arange_def calibration_limits_def resolution_cm_def)

lemma np_index_calibration:
  assumes "0 \<le> i" and "i < 3500"
  shows "np_index calibration_lambdas i = Some (10000000 / (12500 - 3 * real_of_int i))"
proof -
  have "nat i < 3500" using assms by simp
  then have "calibration_lambdas ! nat i = 10000000 / (12500 + real (nat i) * (- 3))"
    by (simp add: calibration_lambdas_def np_arange_def calibration_limits_def resolution_cm_def)
  then show ?thesis
    using assms by (simp add: np_index_def length_calibration_lambdas Let_def)
qed

lemmas serial_defs = serial_number_def py_int_def py_strip_def py_unsigned_def is_space_def
  is_digit_def digit_value_def

lemmas sim_defs = sim_sdk_def sim_ok_def sim_set_wavenumber_array_def sim_begin_acquisition_def
  sim_end_acquisition_def sim_read_raw_def sim_process_spectrum_def sim_device_def sim_env_def

lemma sim_connected_eq:
  "sim_connected =
    (init sim_device)\<lparr>priv_lambdas := Some calibration_lambdas,
                       priv_npixels := Some 3500,
                       priv_spectrum := Some (replicate 3500 0),
                       priv_connected := True,
                       priv_serial := ''Mozza#12'',
                       sdk_log := [Call_connect 12, Call_get_sensors, Call_set_default_params]\<rparr>"
  by (simp add: sim_connected_def connect_device_def serial_defs andthen_def wrapping_def passing_def
        call_def sim_defs init_def load_amp_correction_def length_calibration_lambdas Let_def)

lemmas load_table_numeral = load_table.simps(2)[of _ _ "pred_numeral k", folded numeral_eq_Suc] for k

lemmas upt_numeral = upt_rec[of _ "numeral k"] for k

lemma replicate_numeral: "replicate (numeral k) x = x # replicate (pred_numeral k) x"
  by (simp add: numeral_eq_Suc)

lemma table_of_window_no_range: "table_of_window a b s = (Inl e, s1) \<Longrightarrow> \<not> range_abort (Raise e)"
  by (auto simp: table_of_window_def lambda_at_def Let_def split: option.splits sum.splits pyval.splits)

lemma table_of_wnums_no_range: "table_of_wnums w s = (Inl e, s1) \<Longrightarrow> \<not> range_abort (Raise e)"
  by (auto simp: table_of_wnums_def split: if_splits)

lemma after_table_write_no_range: "after_table_write sdk w s = (Inl a, s1) \<Longrightarrow> \<not> range_abort a"
  by (auto simp: after_table_write_def Let_def split: prod.splits reply.splits option.splits)

lemma load_table_no_range: "load_table sdk me depth a b w s = (Inl x, s1) \<Longrightarrow> \<not> range_abort x"
proof (induction depth arbitrary: w s x s1)
  case 0
  then show ?case by auto
next
  case (Suc depth)
  show ?case
    using Suc.prems
    by (auto simp: first_table_def split: option.splits prod.splits sum.splits reply.splits if_splits
             dest!: table_of_window_no_range table_of_wnums_no_range after_table_write_no_range
                    Suc.IH)
qed

lemma read_chunks_no_range: "read_chunks sdk fuel npts l lp s = (Inl x, s1) \<Longrightarrow> \<not> range_abort x"
proof (induction fuel arbitrary: l lp s)
  case 0
  then show ?case
    by (subst (asm) read_chunks.simps) (auto split: if_splits)
next
  case (Suc fuel)
  show ?case
    using Suc.prems
    by (subst (asm) read_chunks.simps)
       (auto split: if_splits prod.splits reply.splits option.splits simp: Let_def
             dest!: Suc.IH)
qed

lemma read_raw_no_range: "read_raw sdk fuel s = (Inl x, s1) \<Longrightarrow> \<not> range_abort x"
  by (auto simp: read_raw_def read_whole_def Let_def split: prod.splits reply.splits if_splits sum.splits
           dest!: read_chunks_no_range)

lemma acquire_locked_no_range: "acquire_locked sdk fuel s = (Inl x, s1) \<Longrightarrow> \<not> range_abort x"
  by (auto simp: acquire_locked_def acquire_try_def
           split: prod.splits reply.splits if_splits sum.splits
           dest!: read_raw_no_range)

lemma np_mul_no_range: "np_mul x y = Inl e \<Longrightarrow> \<not> range_abort (Raise e)"
  by (cases x; cases y) (auto split: if_splits)

lemma corrected_spectrum_no_range: "corrected_spectrum spec s = (Inl x, s1) \<Longrightarrow> \<not> range_abort x"
  by (auto simp: corrected_spectrum_def split: if_splits sum.splits dest!: np_mul_no_range)

lemma acquire_spectrum_no_range: "\<not> is_range_error (fst (acquire_spectrum sdk me depth fuel bg s))"
  by (cases "acquire_spectrum sdk me depth fuel bg s")
     (auto simp: acquire_spectrum_def reload_table_def is_range_error_def
           split: prod.splits if_splits sum.splits option.splits
           dest!: load_table_no_range acquire_locked_no_range corrected_spectrum_no_range)

lemma acquire_spectrum_acquisition:
  "acquisition (snd (acquire_spectrum sdk me depth fuel bg s)) = acquisition s"
  using acquire_spectrum_kept[of sdk me depth fuel bg s] 
  by (cases "acquire_spectrum sdk me depth fuel bg s") (simp add: kept_def)

lemma call_kept_snd [simp]: "kept (snd (call c m s)) = kept s"
  by (cases "call c m s") (simp add: call_kept)

lemma passing_kept [simp]: "kept (snd (passing x)) = kept (snd x)"
  by (auto simp: passing_def split: prod.splits reply.splits)

lemma wrapping_kept [simp]: "kept (snd (wrapping x)) = kept (snd x)"
  by (auto simp: wrapping_def split: prod.splits reply.splits)

lemma andthen_kept: "(\<And>v t. kept (snd (f v t)) = kept t) \<Longrightarrow> kept (snd (andthen x f)) = kept (snd x)"
  by (auto simp: andthen_def split: prod.splits sum.splits)

lemma with_lock_kept: "(\<And>t. kept (snd (body t)) = kept t) \<Longrightarrow> kept (snd (with_lock me body s)) = kept s"
proof -
  assume h: "\<And>t. kept (snd (body t)) = kept t"
  show ?thesis
  proof (cases "rlock_acquire me (priv_lock s)")
    case None
    then show ?thesis by (simp add: with_lock_def)
  next
    case (Some l)
    have "kept (snd (body (s\<lparr>priv_lock := l\<rparr>))) = kept s" using h by simp
    with Some show ?thesis
      by (auto simp: with_lock_def split: prod.splits)
  qed
qed

lemma set_ext_trigger_kept: "kept (snd (set_ext_trigger sdk me flag ap ud s)) = kept s"
  by (simp add: set_ext_trigger_def Let_def with_lock_kept)

lemma small_methods_kept:
  "kept (snd (disconnect_device sdk s)) = kept s"
  "kept (snd (set_exposure x s)) = kept s"
  "kept (snd (get_exposure s)) = kept s"
  "kept (snd (reset s)) = kept s"
  "kept (snd (set_rf_attenuation sdk me v s)) = kept s"
  "kept (snd (setup_gains sdk s)) = kept s"
  "kept (snd (set_acquisition_params sdk s)) = kept s"
  "kept (snd (set_process_params sdk s)) = kept s"
  "kept (snd (ext_trigger_freq sdk me s)) = kept s"
  "kept (snd (assign_acquisition_params pa s)) = kept s"
  "kept (snd (assign_process_params pp s)) = kept s"
  "kept (snd (set_auto_params sdk a b s)) = kept s"
  by (simp_all add: disconnect_device_def set_exposure_def get_exposure_def reset_def
        set_rf_attenuation_def setup_gains_def set_acquisition_params_def set_process_params_def
        ext_trigger_freq_def assign_acquisition_params_def assign_process_params_def
        set_auto_params_def with_lock_kept andthen_kept)

lemma set_all_device_params_kept: "kept (snd (set_all_device_params sdk me s)) = kept s"
  by (simp add: set_all_device_params_def with_lock_kept andthen_kept small_methods_kept)

lemma measure_offsets_kept: "kept (snd (measure_offsets sdk me s)) = kept s"
  by (simp add: measure_offsets_def with_lock_kept andthen_kept Let_def)

lemma read_raw_kept_snd: "kept (snd (read_raw sdk fuel s)) = kept s"
  by (cases "read_raw sdk fuel s") (simp add: read_raw_kept)

lemma acquire_raw_try_kept: "acquire_raw_try sdk fuel t = (a, b) \<Longrightarrow> kept b = kept t"
  by (auto simp: acquire_raw_try_def split: prod.splits reply.splits sum.splits if_splits
           dest!: call_kept read_raw_kept)

lemma acquire_raw_kept: "kept (snd (acquire_raw sdk me fuel s)) = kept s"
proof -
  have "kept (snd (case acquire_raw_try sdk fuel t of
              (r, t1) \<Rightarrow>
                (r, if comes_back r
                    then (case call Call_end_acquisition (sdk_end_acquisition sdk) t1 of (_, t2) \<Rightarrow> t2)
                    else t1))) = kept t" for t
    by (auto split: prod.splits dest!: call_kept acquire_raw_try_kept)
  then show ?thesis
    by (simp add: acquire_raw_def with_lock_kept)
qed

lemma load_amp_correction_flag:
  "apply_amp_correction (snd (load_amp_correction e n s)) \<Longrightarrow> apply_amp_correction s"
  by (auto simp: load_amp_correction_def Let_def split: loadtxt_result.splits if_splits)


lemma load_amp_correction_installs:
  "load_amp_correction e n s = (Return True, s1) \<Longrightarrow>
     apply_amp_correction s1 = apply_amp_correction s \<and> correct_amplitude s1 \<noteq> None"
  by (auto simp: load_amp_correction_def Let_def split: loadtxt_result.splits if_splits)

lemma load_amp_correction_flag_pair:
  "load_amp_correction e n s = (r, s1) \<Longrightarrow> apply_amp_correction s1 \<longrightarrow> apply_amp_correction s"
  using load_amp_correction_flag[of e n s] by simp

lemma connect_device_flag:
  "apply_amp_correction (snd (connect_device sdk e serial s)) \<Longrightarrow> apply_amp_correction s"
proof -
  have k: "apply_amp_correction t = fst (snd (kept t))" for t :: "'h MozzaSpectro"
    by (simp add: kept_def)
  assume a: "apply_amp_correction (snd (connect_device sdk e serial s))"
  show ?thesis
  proof (cases "serial_number serial")
    case (Inl err)
    with a show ?thesis by (auto simp: connect_device_def split: if_splits)
  next
    case (Inr n)
    with a show ?thesis
      by (auto simp: connect_device_def andthen_def wrapping_def passing_def Let_def
               split: prod.splits sum.splits reply.splits
               dest!: call_kept load_amp_correction_flag_pair
               simp: kept_def)
  qed
qed


lemma make_acquisition_flag:
  "apply_amp_correction (snd (make_acquisition (acquire_spectrum sdk me depth fuel) a b bg s))
     = apply_amp_correction s"
proof -
  have "apply_amp_correction t1 = apply_amp_correction t"
    if "acquire_spectrum sdk me depth fuel bg t = (r, t1)" for t r t1
    using acquire_spectrum_kept[OF that] by (simp add: kept_def)
  then show ?thesis
    by (auto simp: make_acquisition_def Let_def split: option.splits prod.splits sum.splits)
qed

lemma kept_flag: "kept t = kept s \<Longrightarrow> apply_amp_correction t = apply_amp_correction s"
  by (simp add: kept_def)

lemma state_after_flag:
  assumes a: "apply_amp_correction (state_after sdk e depth fuel me m s)"
  shows "apply_amp_correction s"
proof (cases m)
  case (M_connect_device x)
  with a show ?thesis by (auto dest: connect_device_flag)
next
  case (M_load_amp_correction n)
  with a show ?thesis by (auto dest: load_amp_correction_flag)
next
  case (M_make_acquisition a b bg)
  with a show ?thesis by (simp add: make_acquisition_flag)
next
  case (M_load_table a b w)
  with a show ?thesis
    using load_table_kept[of sdk me depth a b w s] 
    by (cases "load_table sdk me depth a b w s") (simp add: kept_def)
next
  case M_read_raw
  with a show ?thesis by (simp add: kept_flag[OF read_raw_kept_snd])
next
  case (M_acquire_spectrum bg)
  with a show ?thesis
    using acquire_spectrum_kept[of sdk me depth fuel bg s] 
    by (cases "acquire_spectrum sdk me depth fuel bg s") (simp add: kept_def)
qed (use a in \<open>simp_all add: kept_flag[OF set_ext_trigger_kept] kept_flag[OF small_methods_kept(1)]
      kept_flag[OF small_methods_kept(2)] kept_flag[OF small_methods_kept(3)]
      kept_flag[OF small_methods_kept(4)] kept_flag[OF small_methods_kept(5)]
      kept_flag[OF small_methods_kept(6)] kept_flag[OF small_methods_kept(7)]
      kept_flag[OF small_methods_kept(8)] kept_flag[OF small_methods_kept(9)]
      kept_flag[OF small_methods_kept(10)] kept_flag[OF small_methods_kept(11)]
      kept_flag[OF small_methods_kept(12)] kept_flag[OF set_all_device_params_kept]
      kept_flag[OF measure_offsets_kept] kept_flag[OF acquire_raw_kept]\<close>)

lemma run_flag:
  "apply_amp_correction (run sdk e depth fuel ms s) \<Longrightarrow> apply_amp_correction s"
proof (induction ms arbitrary: s)
  case Nil
  then show ?case by simp
next
  case (Cons x ms)
  then show ?case
    by (cases x) (auto dest: state_after_flag)
qed

lemmas eval_defs = first_table_def table_of_window_def table_of_wnums_def lambda_at_def np_index_calibration
  window_count_def np_linspace_def rlock_acquire_def rlock_free_def call_def
  after_table_write_def np_zeros_def unlock_def rlock_release_def Let_def upt_numeral
  load_table_numeral sim_defs sim_connected_eq init_def

lemmas acq_defs = acquire_spectrum_def reload_table_def table_differs_def acquire_locked_def acquire_try_def
  acquire_finally_def corrected_spectrum_def read_raw_def read_whole_def

lemma sim_corrected_eq:
  "sim_corrected =
     sim_connected\<lparr>correct_amplitude := Some (\<lambda>x. np_interp (sim_env (LoadedArrays [1000, 2000] [1, 2])) x
                       (map (\<lambda>w. 10000000 / w) (rev [1000, 2000])) (rev [1, 2])),
                   apply_amp_correction := True\<rparr>"
  by (simp add: sim_corrected_def load_amp_correction_def sim_env_def Let_def)

lemma call_log: "call c m s = (r, s1) \<Longrightarrow> sdk_log s1 = sdk_log s @ [c]"
  by (auto simp: call_def split: prod.splits)

lemma py_split_no_sep: "sep \<notin> set str \<Longrightarrow> py_split sep str = [str]"
  by (induction str) auto

lemma load_table_held_elsewhere:
  assumes "rlock_acquire me (priv_lock s) = None"
  shows "(\<forall>x. fst (load_table sdk me depth a b w s) \<noteq> Return x) \<and>
         sdk_log (snd (load_table sdk me depth a b w s)) = sdk_log s"
proof (cases depth)
  case 0
  then show ?thesis by simp
next
  case (Suc d)
  with assms show ?thesis
    by (auto simp: first_table_def table_of_window_def table_of_wnums_def Let_def
             split: option.splits prod.splits sum.splits if_splits)
qed

lemma sim_acquired_eq:
  "sim_acquired =
     sim_connected\<lparr>acquisition := window01, priv_acquisition := window01,
                   device := (device sim_connected)\<lparr>table_length := 2\<rparr>,
                   buffer := replicate 8 0,
                   sdk_log := sdk_log sim_connected @
                     [Call_set_wavenumber_array [12500, 12497], Call_get_raw_data_size 2,
                      Call_begin_acquisition, Call_read_raw None,
                      Call_process_spectrum (replicate 8 1), Call_end_acquisition]\<rparr>"
  by (simp add: sim_acquired_def window01_def acq_defs eval_defs)

lemma py_split_prefix: "sep \<notin> set pre \<Longrightarrow> py_split sep (pre @ sep # xs) = pre # py_split sep xs"
  by (induction pre) auto

lemma py_split_field:
  "sep \<notin> set field \<Longrightarrow> rest = [] \<or> hd rest = sep \<Longrightarrow> \<exists>ws. py_split sep (field @ rest) = field # ws"
proof (induction field)
  case Nil
  then show ?case by (cases rest) auto
next
  case (Cons c field)
  then show ?case by auto
qed

lemma py_digits_chars:
  "py_digits acc str = Some v \<Longrightarrow> c \<in> set str \<Longrightarrow> is_digit c \<or> c = CHR ''_''"
  by (induction acc str arbitrary: v rule: py_digits.induct) (auto split: if_splits)

lemma py_unsigned_chars:
  "py_unsigned str = Some v \<Longrightarrow> c \<in> set str \<Longrightarrow> is_digit c \<or> c = CHR ''_''"
  by (cases str) (auto simp: py_unsigned_def split: if_splits dest: py_digits_chars)

lemma dropWhile_keeps: "c \<in> set xs \<Longrightarrow> \<not> P c \<Longrightarrow> c \<in> set (dropWhile P xs)"
  by (induction xs) auto

lemma py_strip_keeps: "c \<in> set str \<Longrightarrow> \<not> is_space c \<Longrightarrow> c \<in> set (py_strip str)"
  by (simp add: py_strip_def dropWhile_keeps)

lemma py_int_plain_char:
  assumes "c \<in> set str" and "plain_char c"
  shows "py_int str = None"
proof (rule ccontr)
  assume "py_int str \<noteq> None"
  then obtain v where v: "py_int str = Some v" by auto
  from assms have p: "\<not> is_digit c" "\<not> is_space c" "c \<noteq> CHR ''+''" "c \<noteq> CHR ''-''" "c \<noteq> CHR ''_''"
    by (auto simp: plain_char_def split: if_splits)
  with assms have m: "c \<in> set (py_strip str)" by (simp add: py_strip_keeps)
  then obtain x xs where s: "py_strip str = x # xs" by (cases "py_strip str") auto
  show False
  proof (cases "x = CHR ''-'' \<or> x = CHR ''+''")
    case True
    with v s obtain u where "py_unsigned xs = Some u"
      by (auto simp: py_int_def split: if_splits)
    moreover from True m s p have "c \<in> set xs" by auto
    ultimately show False using py_unsigned_chars p by blast
  next
    case False
    with v s have "py_unsigned (x # xs) = Some v"
      by (auto simp: py_int_def split: if_splits)
    with m s show False using py_unsigned_chars p by metis
  qed
qed

lemma py_int_empty: "py_int [] = None"
  by (simp add: py_int_def py_strip_def)


lemma unlock_amp [simp]: "amp_correction (unlock s) = amp_correction s"
  by (simp add: unlock_def)








lemma np_mul_same_length:
  "length amp = length spec \<Longrightarrow> np_mul (Some spec) (Some amp) = Inr (Some (map2 (*) spec amp))"
  by simp



lemma assign_slice_length: "assign_slice buf l raw = Some b \<Longrightarrow> length b = length buf \<and> l + length raw \<le> length buf \<or> length buf < l"
  by (auto simp: assign_slice_def split: if_splits)








section \<open>Properties\<close>

text \<open>
  C1. \<open>make_acquisition(start, stop, background_mode)\<close>: a device that is not connected
  makes the call return with the state untouched. On a connected device negative indices
  are resolved against \<open>npixels\<close>; when the resolved window violates
  \<open>0 \<le> start < stop < npixels\<close> the call raises one of its two range \<open>ValueError\<close>s and
  leaves the state untouched; otherwise it stores the resolved window and runs the
  backend's \<open>_acquire_spectrum\<close> on that state, keeping its result as the spectrum. So,
  for a backend that raises no range error of its own, a range error is raised exactly
  when the window is violated, and for a backend that does not assign \<open>acquisition\<close> the
  resolved window is the current acquisition afterwards.
\<close>

theorem make_acquisition_window:
  "(\<not> priv_connected s \<longrightarrow> make_acquisition acq start0 stop0 bg s = (Return (), s)) \<and>
   (priv_connected s \<and> priv_npixels s = Some n \<and>
      \<not> window_ok n (resolve_index n start0) (resolve_index n stop0) \<longrightarrow>
        is_range_error (fst (make_acquisition acq start0 stop0 bg s)) \<and>
        snd (make_acquisition acq start0 stop0 bg s) = s) \<and>
   (priv_connected s \<and> priv_npixels s = Some n \<and>
      window_ok n (resolve_index n start0) (resolve_index n stop0) \<longrightarrow>
        make_acquisition acq start0 stop0 bg s =
          (case acq bg (s\<lparr>acquisition :=
                           \<lparr>start = PyInt (resolve_index n start0), stop = PyInt (resolve_index n stop0)\<rparr>\<rparr>) of
             (Inl a, s1) \<Rightarrow> (Inl a, s1)
           | (Inr spec, s1) \<Rightarrow> (Return (), s1\<lparr>priv_spectrum := spec\<rparr>))) \<and>
   ((\<forall>b t. \<not> is_range_error (fst (acq b t))) \<longrightarrow> priv_connected s \<longrightarrow> priv_npixels s = Some n \<longrightarrow>
      (is_range_error (fst (make_acquisition acq start0 stop0 bg s))
        \<longleftrightarrow> \<not> window_ok n (resolve_index n start0) (resolve_index n stop0))) \<and>
   ((\<forall>b t. acquisition (snd (acq b t)) = acquisition t) \<longrightarrow> priv_connected s \<longrightarrow> priv_npixels s = Some n \<longrightarrow>
      window_ok n (resolve_index n start0) (resolve_index n stop0) \<longrightarrow>
      acquisition (snd (make_acquisition acq start0 stop0 bg s))
        = \<lparr>start = PyInt (resolve_index n start0), stop = PyInt (resolve_index n stop0)\<rparr>)"
proof (intro conjI impI)
  assume "\<not> priv_connected s"
  then show "make_acquisition acq start0 stop0 bg s = (Return (), s)"
    by (simp add: make_acquisition_def)
next
  assume a: "priv_connected s \<and> priv_npixels s = Some n \<and>
      \<not> window_ok n (resolve_index n start0) (resolve_index n stop0)"
  then show "is_range_error (fst (make_acquisition acq start0 stop0 bg s))"
    by (auto simp: make_acquisition_connected window_ok_checks)
  from a show "snd (make_acquisition acq start0 stop0 bg s) = s"
    by (auto simp: make_acquisition_connected window_ok_checks)
next
  assume "priv_connected s \<and> priv_npixels s = Some n \<and>
      window_ok n (resolve_index n start0) (resolve_index n stop0)"
  then show "make_acquisition acq start0 stop0 bg s =
          (case acq bg (s\<lparr>acquisition :=
                           \<lparr>start = PyInt (resolve_index n start0), stop = PyInt (resolve_index n stop0)\<rparr>\<rparr>) of
             (Inl a, s1) \<Rightarrow> (Inl a, s1)
           | (Inr spec, s1) \<Rightarrow> (Return (), s1\<lparr>priv_spectrum := spec\<rparr>))"
    by (simp add: make_acquisition_connected window_ok_checks)
next
  assume h: "\<forall>b t. \<not> is_range_error (fst (acq b t))" and c: "priv_connected s" "priv_npixels s = Some n"
  show "is_range_error (fst (make_acquisition acq start0 stop0 bg s))
        \<longleftrightarrow> \<not> window_ok n (resolve_index n start0) (resolve_index n stop0)"
  proof (cases "window_ok n (resolve_index n start0) (resolve_index n stop0)")
    case True
    let ?t = "s\<lparr>acquisition :=
                 \<lparr>start = PyInt (resolve_index n start0), stop = PyInt (resolve_index n stop0)\<rparr>\<rparr>"
    from h have "\<not> is_range_error (fst (acq bg ?t))" by blast
    with True c show ?thesis
      by (auto simp: make_acquisition_connected window_ok_checks split: prod.splits sum.splits)
  next
    case False
    with c show ?thesis
      by (auto simp: make_acquisition_connected window_ok_checks)
  qed
next
  assume h: "\<forall>b t. acquisition (snd (acq b t)) = acquisition t"
    and c: "priv_connected s" "priv_npixels s = Some n"
    and w: "window_ok n (resolve_index n start0) (resolve_index n stop0)"
  let ?t = "s\<lparr>acquisition :=
               \<lparr>start = PyInt (resolve_index n start0), stop = PyInt (resolve_index n stop0)\<rparr>\<rparr>"
  from h have "acquisition (snd (acq bg ?t)) = acquisition ?t" by blast
  with c w show "acquisition (snd (make_acquisition acq start0 stop0 bg s))
        = \<lparr>start = PyInt (resolve_index n start0), stop = PyInt (resolve_index n stop0)\<rparr>"
    by (auto simp: make_acquisition_connected window_ok_checks split: prod.splits sum.splits)
qed

theorem make_acquisition_window_witness:
  "make_acquisition (acquire_spectrum sim_sdk 0 5 5) 0 (- 1) False (init sim_device)
     = (Return (), init sim_device) \<and>
   is_range_error (fst (make_acquisition (acquire_spectrum sim_sdk 0 5 5) 7 7 False sim_connected)) \<and>
   snd (make_acquisition (acquire_spectrum sim_sdk 0 5 5) 7 7 False sim_connected) = sim_connected \<and>
   is_range_error (fst (make_acquisition (acquire_spectrum sim_sdk 0 5 5) 0 3500 False sim_connected)) \<and>
   \<not> is_range_error (fst (make_acquisition (acquire_spectrum sim_sdk 0 5 5) (- 3500) (- 1) False sim_connected)) \<and>
   acquisition (snd (make_acquisition (acquire_spectrum sim_sdk 0 5 5) (- 3500) (- 1) False sim_connected))
     = \<lparr>start = PyInt 0, stop = PyInt 3499\<rparr>"
proof -
  let ?acq = "acquire_spectrum sim_sdk 0 5 5"
  have c: "priv_connected sim_connected" "priv_npixels sim_connected = Some 3500"
    by (simp_all add: sim_connected_eq init_def)
  have i: "\<not> priv_connected (init sim_device)" by (simp add: init_def)
  have bad: "\<not> window_ok 3500 (resolve_index 3500 7) (resolve_index 3500 7)"
    "\<not> window_ok 3500 (resolve_index 3500 0) (resolve_index 3500 3500)"
    by (simp_all add: window_ok_def resolve_index_def)
  have good: "window_ok 3500 (resolve_index 3500 (- 3500)) (resolve_index 3500 (- 1))"
    by (simp add: window_ok_def resolve_index_def)
  have r: "resolve_index 3500 (- 3500) = 0" "resolve_index 3500 (- 1) = 3499"
    by (simp_all add: resolve_index_def)
  have nr: "\<forall>b t. \<not> is_range_error (fst (?acq b t))"
    by (simp add: acquire_spectrum_no_range)
  have ka: "\<forall>b t. acquisition (snd (?acq b t)) = acquisition t"
    by (simp add: acquire_spectrum_acquisition)
  have 1: "make_acquisition ?acq 0 (- 1) False (init sim_device) = (Return (), init sim_device)"
    using make_acquisition_window [of "init sim_device" ?acq 0 "- 1" False 3500] i by blast
  have 2: "is_range_error (fst (make_acquisition ?acq 7 7 False sim_connected)) \<and>
           snd (make_acquisition ?acq 7 7 False sim_connected) = sim_connected"
    using make_acquisition_window [of sim_connected ?acq 7 7 False 3500] c bad(1) by blast
  have 3: "is_range_error (fst (make_acquisition ?acq 0 3500 False sim_connected))"
    using make_acquisition_window [of sim_connected ?acq 0 3500 False 3500] c bad(2) by blast
  have 4: "\<not> is_range_error (fst (make_acquisition ?acq (- 3500) (- 1) False sim_connected))"
    using make_acquisition_window [of sim_connected ?acq "- 3500" "- 1" False 3500] c good nr by blast
  have 5: "acquisition (snd (make_acquisition ?acq (- 3500) (- 1) False sim_connected))
            = \<lparr>start = PyInt (resolve_index 3500 (- 3500)), stop = PyInt (resolve_index 3500 (- 1))\<rparr>"
    using make_acquisition_window [of sim_connected ?acq "- 3500" "- 1" False 3500] c good ka by blast
  from 1 2 3 4 5 show ?thesis by (simp add: r)
qed

text \<open>
  C8. \<open>set_ext_trigger(False, update_delay=True)\<close> selects the internal trigger, stores the
  device's trigger delay in \<open>_trigger_delay_us\<close> and sets the device's delay to 0;
  \<open>set_ext_trigger(True, update_delay=True)\<close> sets the device's delay to the integer part
  of \<open>_trigger_delay_us\<close>, which after the former call is the delay the device had before.
\<close>

theorem set_ext_trigger_delay:
  "fst (set_ext_trigger sdk me False False True s) = Return () \<and>
   priv_trigger_delay_us (snd (set_ext_trigger sdk me False False True s))
     = real_of_int (trigger_delay_us (acquisition_params (device s))) \<and>
   trigger_delay_us (acquisition_params (device (snd (set_ext_trigger sdk me False False True s)))) = 0 \<and>
   trigger_source (acquisition_params (device (snd (set_ext_trigger sdk me False False True s)))) = INTERNAL \<and>
   fst (set_ext_trigger sdk me True False True t) = Return () \<and>
   real_of_int (trigger_delay_us (acquisition_params (device (snd (set_ext_trigger sdk me True False True t)))))
     = real_of_int (py_int_of_float (priv_trigger_delay_us t)) \<and>
   trigger_delay_us (acquisition_params (device
      (snd (set_ext_trigger sdk me True False True (snd (set_ext_trigger sdk me False False True s))))))
     = trigger_delay_us (acquisition_params (device s))"
  by (simp add: set_ext_trigger_def Let_def py_int_of_float_def)

text \<open>
  C10. No method of the backend sets \<open>apply_amp_correction\<close> to \<open>True\<close>: \<open>__init__\<close> sets it
  to \<open>False\<close>; whatever a method call leaves behind, the flag is set afterwards only if it
  was set before; so after any sequence of calls on a fresh backend it is still \<open>False\<close>.
  A \<open>load_amp_correction\<close> that returns \<open>True\<close> installs the correction function and leaves
  the flag as it was.
\<close>

theorem apply_amp_correction_never_set:
  "\<not> apply_amp_correction (init d) \<and>
   (apply_amp_correction (state_after sdk e depth fuel me m s) \<longrightarrow> apply_amp_correction s) \<and>
   \<not> apply_amp_correction (run sdk e depth fuel ms (init d)) \<and>
   (load_amp_correction e n s = (Return True, s1) \<longrightarrow>
      apply_amp_correction s1 = apply_amp_correction s \<and> correct_amplitude s1 \<noteq> None)"
proof (intro conjI impI)
  show i: "\<not> apply_amp_correction (init d)" by (simp add: init_def)
  show "apply_amp_correction s" if "apply_amp_correction (state_after sdk e depth fuel me m s)"
    using that by (rule state_after_flag)
  show "\<not> apply_amp_correction (run sdk e depth fuel ms (init d))"
    using i run_flag by blast
  show "apply_amp_correction s1 = apply_amp_correction s" 
    and "correct_amplitude s1 \<noteq> None" if "load_amp_correction e n s = (Return True, s1)"
    using load_amp_correction_installs[OF that] by simp_all
qed

theorem apply_amp_correction_never_set_witness:
  "fst (load_amp_correction (sim_env (LoadedArrays [1000, 2000] [1, 2])) 12 sim_connected) = Return True \<and>
   \<not> apply_amp_correction
       (snd (load_amp_correction (sim_env (LoadedArrays [1000, 2000] [1, 2])) 12 sim_connected)) \<and>
   correct_amplitude
       (snd (load_amp_correction (sim_env (LoadedArrays [1000, 2000] [1, 2])) 12 sim_connected)) \<noteq> None \<and>
   \<not> apply_amp_correction
       (state_after sim_sdk (sim_env LoadOSError) 5 5 0 (M_connect_device ''Mozza#12'') (init sim_device))"
proof -
  let ?e = "sim_env (LoadedArrays [1000, 2000] [1, 2])"
  obtain s1 where s1: "load_amp_correction ?e 12 sim_connected = (Return True, s1)"
    by (simp add: load_amp_correction_def sim_env_def Let_def)
  have f: "\<not> apply_amp_correction sim_connected"
    by (simp add: sim_connected_eq init_def)
  have i: "\<not> apply_amp_correction (init sim_device)"
    by (simp add: init_def)
  from apply_amp_correction_never_set [of sim_device sim_sdk ?e 5 5 0 M_reset sim_connected Nil 12 s1] s1 f
  have "\<not> apply_amp_correction s1 \<and> correct_amplitude s1 \<noteq> None" by blast
  moreover
  from apply_amp_correction_never_set
         [of sim_device sim_sdk "sim_env LoadOSError" 5 5 0 "M_connect_device ''Mozza#12''" "init sim_device"
             Nil 12 s1] i
  have "\<not> apply_amp_correction
           (state_after sim_sdk (sim_env LoadOSError) 5 5 0 (M_connect_device ''Mozza#12'') (init sim_device))"
    by blast
  ultimately show ?thesis using s1 by simp
qed

text \<open>
  C2. The claim is that a failed table write is retried exactly once and that a second
  failure raises \<open>SpectroError\<close> with no buffer reallocation. The retry of \<open>load_table\<close> is
  a call of \<open>load_table\<close> itself, which catches the \<open>MozzaError\<close> of its own write and
  retries again. On a device whose first two table writes fail and whose third succeeds,
  \<open>load_table(0, 1)\<close> writes the table three times, with \<open>end_acquisition\<close> after each
  failure, returns normally and reallocates the buffer (here from 0 to 8 bytes).
\<close>

theorem load_table_retries_after_second_failure:
  "fst (load_table sim_sdk 0 5 (PyInt 0) (PyInt 1) None (flaky 2)) = Return () \<and>
   sdk_log (snd (load_table sim_sdk 0 5 (PyInt 0) (PyInt 1) None (flaky 2)))
     = sdk_log (flaky 2) @
       [Call_set_wavenumber_array [12500, 12497], Call_end_acquisition,
        Call_set_wavenumber_array [12500, 12497], Call_end_acquisition,
        Call_set_wavenumber_array [12500, 12497], Call_get_raw_data_size 2] \<and>
   buffer (flaky 2) = [] \<and>
   buffer (snd (load_table sim_sdk 0 5 (PyInt 0) (PyInt 1) None (flaky 2))) = replicate 8 0"
  by (simp add: flaky_def eval_defs)

text \<open>
  C3. The claim is that \<open>load_amp_correction\<close> never raises and answers \<open>False\<close> on any
  invalid file. Only \<open>OSError\<close> is caught: a correction file that \<open>np.loadtxt\<close> cannot
  parse makes the call raise \<open>ValueError\<close>, and a file of one row of two numbers makes it
  raise \<open>TypeError\<close> at \<open>len(amplitude)\<close>; in both cases \<open>correct_amplitude\<close> has been reset to
  \<open>None\<close> and nothing else has changed.
\<close>

theorem load_amp_correction_raises_on_unreadable_data:
  "load_amp_correction (sim_env LoadValueError) 12 sim_connected
     = (Inl (Raise (ValueError NumpyValueError)), sim_connected\<lparr>correct_amplitude := None\<rparr>) \<and>
   load_amp_correction (sim_env (LoadedScalars 1000 (1 / 2))) 12 sim_connected
     = (Inl (Raise TypeError), sim_connected\<lparr>correct_amplitude := None\<rparr>)"
  by (simp add: load_amp_correction_def sim_env_def Let_def)

text \<open>
  C4. The claim is that an SDK error of \<open>begin_acquisition\<close> or of the read makes
  \<open>_acquire_spectrum\<close> return \<open>None\<close> without raising, \<open>end_acquisition\<close> being attempted on
  the way. With \<open>apply_amp_correction\<close> set the last line multiplies \<open>None\<close> by the
  correction array: on a device whose \<open>begin_acquisition\<close> fails the call raises
  \<open>TypeError\<close>. \<open>end_acquisition\<close> has been called, as the log shows.
\<close>

theorem acquire_spectrum_raises_when_corrected:
  "fst (acquire_spectrum sim_sdk 0 5 5 False (begin_failing (sim_corrected\<lparr>acquisition := window01\<rparr>)))
     = Inl (Raise TypeError) \<and>
   sdk_log (snd (acquire_spectrum sim_sdk 0 5 5 False (begin_failing (sim_corrected\<lparr>acquisition := window01\<rparr>))))
     = sdk_log sim_corrected @
       [Call_set_wavenumber_array [12500, 12497], Call_get_raw_data_size 2,
        Call_begin_acquisition, Call_end_acquisition] \<and>
   amp_correction (snd (acquire_spectrum sim_sdk 0 5 5 False (begin_failing (sim_corrected\<lparr>acquisition := window01\<rparr>))))
     = Some [2, 2]"
  by (simp add: sim_corrected_eq begin_failing_def window01_def acq_defs eval_defs)

text \<open>
  C9 (as amended). \<open>_acquire_spectrum\<close> called while another thread holds the lock: when the
  window asked for is the one already programmed, the call returns \<open>None\<close> at once and
  changes nothing (no device call, no wait). When the window differs, the call first runs
  \<open>load_table\<close>, whose \<open>with self._lock\<close> waits for the lock: the call does not return
  while the lock is held (it waits, or the table computation raises), and it makes no
  device call.
\<close>

theorem acquire_spectrum_when_locked:
  assumes "lock_owner (priv_lock s) = Some t" and "t \<noteq> me"
  shows "(\<not> table_differs s \<longrightarrow> acquire_spectrum sdk me depth fuel bg s = (Return None, s)) \<and>
         (table_differs s \<longrightarrow>
            (\<forall>x. fst (acquire_spectrum sdk me depth fuel bg s) \<noteq> Return x) \<and>
            sdk_log (snd (acquire_spectrum sdk me depth fuel bg s)) = sdk_log s)"
proof -
  from assms have n: "rlock_acquire me (priv_lock s) = None"
    by (simp add: rlock_acquire_def)
  show ?thesis
  proof (intro conjI impI)
    assume "\<not> table_differs s"
    with n show "acquire_spectrum sdk me depth fuel bg s = (Return None, s)"
      by (simp add: acquire_spectrum_def reload_table_def)
  next
    assume d: "table_differs s"
    let ?r = "load_table sdk me depth (start (acquisition s)) (stop (acquisition s)) None s"
    from load_table_held_elsewhere[OF n]
    have l: "\<forall>x. fst ?r \<noteq> Return x" "sdk_log (snd ?r) = sdk_log s" by blast+
    from d l show "\<forall>x. fst (acquire_spectrum sdk me depth fuel bg s) \<noteq> Return x"
      by (cases ?r) (auto simp: acquire_spectrum_def reload_table_def split: sum.splits)
    from d l show "sdk_log (snd (acquire_spectrum sdk me depth fuel bg s)) = sdk_log s"
      by (cases ?r) (auto simp: acquire_spectrum_def reload_table_def split: sum.splits)
  qed
qed

theorem acquire_spectrum_when_locked_witness:
  "acquire_spectrum sim_sdk 0 5 5 False (held_by 1 sim_acquired) = (Return None, held_by 1 sim_acquired) \<and>
   fst (acquire_spectrum sim_sdk 0 5 5 False (held_by 1 (sim_connected\<lparr>acquisition := window01\<rparr>)))
     \<noteq> Return None \<and>
   sdk_log (snd (acquire_spectrum sim_sdk 0 5 5 False (held_by 1 (sim_connected\<lparr>acquisition := window01\<rparr>))))
     = sdk_log sim_connected"
proof -
  have a: "lock_owner (priv_lock (held_by 1 sim_acquired)) = Some 1" "(1::nat) \<noteq> 0"
    "\<not> table_differs (held_by 1 sim_acquired)"
    by (simp_all add: held_by_def sim_acquired_eq table_differs_def window01_def sim_connected_eq init_def)
  have b: "lock_owner (priv_lock (held_by 1 (sim_connected\<lparr>acquisition := window01\<rparr>))) = Some 1"
    "table_differs (held_by 1 (sim_connected\<lparr>acquisition := window01\<rparr>))"
    "sdk_log (held_by 1 (sim_connected\<lparr>acquisition := window01\<rparr>)) = sdk_log sim_connected"
    by (simp_all add: held_by_def table_differs_def window01_def sim_connected_eq init_def)
  from acquire_spectrum_when_locked [OF a(1) a(2), of sim_sdk 5 5 False] a(3)
  have 1: "acquire_spectrum sim_sdk 0 5 5 False (held_by 1 sim_acquired) = (Return None, held_by 1 sim_acquired)"
    by blast
  from acquire_spectrum_when_locked [OF b(1) a(2), of sim_sdk 5 5 False] b(2)
  have 2: "fst (acquire_spectrum sim_sdk 0 5 5 False (held_by 1 (sim_connected\<lparr>acquisition := window01\<rparr>)))
             \<noteq> Return None"
    and 3: "sdk_log (snd (acquire_spectrum sim_sdk 0 5 5 False (held_by 1 (sim_connected\<lparr>acquisition := window01\<rparr>))))
             = sdk_log (held_by 1 (sim_connected\<lparr>acquisition := window01\<rparr>))"
    by blast+
  from 1 2 3 b(3) show ?thesis by simp
qed

text \<open>
  C9 as stated fails: with the lock held by thread 1 and a new window, the call of thread 0
  waits for the lock inside \<open>load_table\<close> instead of returning \<open>None\<close>.
\<close>

theorem acquire_spectrum_waits_for_table_load:
  "acquire_spectrum sim_sdk 0 5 5 False (held_by 1 (sim_connected\<lparr>acquisition := window01\<rparr>))
     = (Inl Blocked, held_by 1 (sim_connected\<lparr>acquisition := window01, priv_acquisition := window01\<rparr>))"
  by (simp add: held_by_def window01_def acq_defs eval_defs)

text \<open>
  C6 (as amended). A serial string without the separator \<open>#\<close> makes \<open>connect_device\<close> raise
  \<open>SpectroError\<close> and leaves the state as it was. Whenever \<open>int(serial.split('#')[1])\<close>
  fails, the call raises and the state is as it was, so \<open>connected\<close> and \<open>serial\<close> keep
  their values; this is the case in particular when the field between the first \<open>#\<close> and the
  next one (or the end) is empty or contains a character that is no digit, sign,
  underscore or white space.
\<close>

theorem connect_device_bad_serial:
  "(CHR ''#'' \<notin> set serial \<longrightarrow> connect_device sdk e serial s = (Inl (Raise SpectroError), s)) \<and>
   (\<forall>err. serial_number serial = Inl err \<longrightarrow>
      (\<exists>x. fst (connect_device sdk e serial s) = Inl (Raise x)) \<and>
      snd (connect_device sdk e serial s) = s) \<and>
   (\<forall>pre field rest.
      serial = pre @ CHR ''#'' # field @ rest \<and> CHR ''#'' \<notin> set pre \<and> CHR ''#'' \<notin> set field \<and>
      (rest = [] \<or> hd rest = CHR ''#'') \<and> (field = [] \<or> list_ex plain_char field) \<longrightarrow>
        (\<exists>x. fst (connect_device sdk e serial s) = Inl (Raise x)) \<and>
        snd (connect_device sdk e serial s) = s)"
proof (intro conjI allI impI)
  assume "CHR ''#'' \<notin> set serial"
  then show "connect_device sdk e serial s = (Inl (Raise SpectroError), s)"
    by (auto simp: connect_device_def serial_number_def py_split_no_sep)
next
  fix err assume "serial_number serial = Inl err"
  then show "\<exists>x. fst (connect_device sdk e serial s) = Inl (Raise x)"
    and "snd (connect_device sdk e serial s) = s"
    by (auto simp: connect_device_def)
next
  fix pre field rest
  assume a: "serial = pre @ CHR ''#'' # field @ rest \<and> CHR ''#'' \<notin> set pre \<and> CHR ''#'' \<notin> set field \<and>
      (rest = [] \<or> hd rest = CHR ''#'') \<and> (field = [] \<or> list_ex plain_char field)"
  then obtain ws where "py_split CHR ''#'' (field @ rest) = field # ws"
    using py_split_field by blast
  with a have sp: "py_split CHR ''#'' serial = pre # field # ws"
    by (simp add: py_split_prefix)
  from a have "py_int field = None"
    by (auto simp: py_int_empty list_ex_iff dest: py_int_plain_char)
  with sp have "serial_number serial = Inl (ValueError IntLiteralError)"
    by (simp add: serial_number_def)
  then show "\<exists>x. fst (connect_device sdk e serial s) = Inl (Raise x)"
    and "snd (connect_device sdk e serial s) = s"
    by (auto simp: connect_device_def)
qed

theorem connect_device_bad_serial_witness:
  "connect_device sim_sdk (sim_env LoadOSError) ''Mozza12'' (init sim_device)
     = (Inl (Raise SpectroError), init sim_device) \<and>
   snd (connect_device sim_sdk (sim_env LoadOSError) ''Mozza#abc'' (init sim_device)) = init sim_device \<and>
   snd (connect_device sim_sdk (sim_env LoadOSError) (''Mozza#'' @ [CHR 0x1F] @ ''12'') (init sim_device))
     = init sim_device \<and>
   snd (connect_device sim_sdk (sim_env LoadOSError) ''Mozza#1.5#7'' (init sim_device)) = init sim_device \<and>
   \<not> priv_connected (init sim_device) \<and> priv_serial (init sim_device) = []"
proof -
  have 1: "CHR ''#'' \<notin> set ''Mozza12''" by simp
  have 2: "serial_number ''Mozza#abc'' = Inl (ValueError IntLiteralError)"
    by (simp add: serial_defs)
  have 3: "serial_number (''Mozza#'' @ [CHR 0x1F] @ ''12'') = Inl (ValueError IntLiteralError)"
    by (simp add: serial_defs)
  have 4: "''Mozza#1.5#7'' = ''Mozza'' @ CHR ''#'' # ''1.5'' @ ''#7'' \<and> CHR ''#'' \<notin> set ''Mozza'' \<and>
      CHR ''#'' \<notin> set ''1.5'' \<and> (''#7'' = [] \<or> hd ''#7'' = CHR ''#'') \<and>
      (''1.5'' = [] \<or> list_ex plain_char ''1.5'')"
    by (simp add: plain_char_def is_digit_def is_space_def)
  from connect_device_bad_serial [of "''Mozza12''" sim_sdk "sim_env LoadOSError" "init sim_device"] 1
  have a: "connect_device sim_sdk (sim_env LoadOSError) ''Mozza12'' (init sim_device)
     = (Inl (Raise SpectroError), init sim_device)" by blast
  from connect_device_bad_serial [of "''Mozza#abc''" sim_sdk "sim_env LoadOSError" "init sim_device"] 2
  have b: "snd (connect_device sim_sdk (sim_env LoadOSError) ''Mozza#abc'' (init sim_device)) = init sim_device"
    by blast
  from connect_device_bad_serial [of "''Mozza#'' @ [CHR 0x1F] @ ''12''" sim_sdk "sim_env LoadOSError" "init sim_device"] 3
  have c: "snd (connect_device sim_sdk (sim_env LoadOSError) (''Mozza#'' @ [CHR 0x1F] @ ''12'') (init sim_device))
     = init sim_device"
    by blast
  from connect_device_bad_serial [of "''Mozza#1.5#7''" sim_sdk "sim_env LoadOSError" "init sim_device"] 4
  have d: "snd (connect_device sim_sdk (sim_env LoadOSError) ''Mozza#1.5#7'' (init sim_device)) = init sim_device"
    by blast
  from a b c d show ?thesis by (simp add: init_def)
qed

text \<open>
  C6 as stated fails: the text before \<open>#\<close> is not looked at, so \<open>Foo#12\<close>, which is not of
  the form \<open>Mozza#<int>\<close>, connects; and the \<open>ValueError\<close> of \<open>int('abc')\<close> is not among the
  exceptions caught, so \<open>Mozza#abc\<close> raises \<open>ValueError\<close>, not \<open>SpectroError\<close>.
\<close>

theorem connect_device_accepts_other_prefix:
  "fst (connect_device sim_sdk (sim_env LoadOSError) ''Foo#12'' (init sim_device)) = Return () \<and>
   priv_connected (snd (connect_device sim_sdk (sim_env LoadOSError) ''Foo#12'' (init sim_device))) \<and>
   priv_serial (snd (connect_device sim_sdk (sim_env LoadOSError) ''Foo#12'' (init sim_device))) = ''Foo#12'' \<and>
   connect_device sim_sdk (sim_env LoadOSError) ''Mozza#abc'' (init sim_device)
     = (Inl (Raise (ValueError IntLiteralError)), init sim_device)"
  by (simp add: connect_device_def serial_defs andthen_def wrapping_def passing_def
        call_def sim_defs init_def load_amp_correction_def Let_def)





end
